theory Spec2Isabelle
  imports Complex_Main
begin

section \<open>Draft order completion (saleor/graphql/order/mutations/draft_order_complete.py)\<close>

text \<open>
  The mutation \<open>DraftOrderComplete.perform_mutation\<close> turns a draft order into an
  unfulfilled one and allocates stock for its lines. The Python mutates an in-memory
  order object, writes to the database (\<open>order.save()\<close>, \<open>shipping_address.delete()\<close>,
  the two warehouse allocators) and raises exceptions. Here the database and the sequence
  of outward calls are an explicit state that every function takes and returns, and each
  \<open>raise\<close> is an \<open>Inl\<close> result returned together with the state reached at that point.
\<close>

subsection \<open>Data model\<close>

text \<open>
  Modelled from the spec: \<open>OrderStatus\<close> is declared in \<open>saleor/order/__init__.py\<close>, outside
  the source file. The mutation only tests for \<open>DRAFT\<close> and assigns \<open>UNFULFILLED\<close>; every other
  lifecycle state is out of scope and kept under one constructor.
\<close>

datatype order_status = DRAFT | UNFULFILLED | OTHER_STATUS string

record user =
  user_pk :: nat
  email :: string

text \<open>
  Modelled from the spec: \<open>Money\<close>, \<open>TaxedMoney\<close> and \<open>zero_taxed_money\<close> come from
  \<open>saleor/core/taxes.py\<close>. A taxed amount is a net and a gross amount in one currency; the
  zero taxed amount has both amounts zero.
\<close>

record money =
  amount :: rat
  money_currency :: string

record taxed_money =
  net :: money
  gross :: money

definition zero_taxed_money :: "string \<Rightarrow> taxed_money" where
  "zero_taxed_money cur =
     \<lparr>net = \<lparr>amount = 0, money_currency = cur\<rparr>, gross = \<lparr>amount = 0, money_currency = cur\<rparr>\<rparr>"

text \<open>
  Modelled from the spec: the variant model is outside the source file. The spec gives a
  variant a tracks-inventory flag and a preorder-active flag; the code reads them as
  \<open>line.variant.track_inventory\<close> and \<open>line.variant.is_preorder_active()\<close>.
\<close>

record product_variant =
  variant_pk :: nat
  track_inventory :: bool
  preorder_active :: bool

definition is_preorder_active :: "product_variant \<Rightarrow> bool" where
  "is_preorder_active v = preorder_active v"

record order_line =
  line_pk :: nat
  variant :: product_variant
  quantity :: int

record channel =
  channel_pk :: nat
  slug :: string

text \<open>
  Modelled from the spec: the order model is outside the source file. The fields are the ones
  the mutation reads or writes; \<open>shipping_required\<close> is the spec's shipping requirement flag
  (read through \<open>order.is_shipping_required()\<close>), \<open>shipping_address\<close> holds the primary key of
  the owned address row, and \<open>lines\<close> is what \<open>order.lines.all()\<close> iterates over. The
  primary key of an order is the key of its row in the order table below.
\<close>

record order =
  status :: order_status
  user :: "user option"
  user_email :: string
  currency :: string
  order_channel :: channel
  shipping_required :: bool
  shipping_method_name :: "string option"
  shipping_price :: taxed_money
  shipping_address :: "nat option"
  search_document :: string
  lines :: "order_line list"

definition is_draft :: "order \<Rightarrow> bool" where
  "is_draft ord = (status ord = DRAFT)"

definition is_shipping_required :: "order \<Rightarrow> bool" where
  "is_shipping_required ord = shipping_required ord"

text \<open>\<open>OrderLineInfo(line=..., quantity=..., variant=...)\<close> and \<open>OrderInfo(...)\<close>.\<close>

record order_line_info =
  li_line :: order_line
  li_quantity :: int
  li_variant :: product_variant

type_synonym payment = nat

record order_info =
  oi_order :: order
  customer_email :: string
  oi_channel :: channel
  oi_payment :: "payment option"
  lines_data :: "order_line_info list"

subsection \<open>Errors\<close>

text \<open>
  Modelled from the spec: the \<open>InsufficientStock\<close> exception (\<open>saleor/core/exceptions.py\<close>)
  carries one shortage per line that could not be allocated: the variant, the requested
  quantity and the quantity found available.
\<close>

record shortage =
  shortage_variant :: nat
  requested :: int
  available :: int

datatype insufficient_stock = InsufficientStock "shortage list"

datatype order_error_code = INVALID | OTHER_CODE string

text \<open>
  One entry of the error list returned to the caller: a message, a code and, for an error
  about one line, the variant it names.
\<close>

record error_item =
  message :: string
  code :: order_error_code
  error_variant :: "nat option"

text \<open>
  \<open>ValidationError({field: errors})\<close> is a field name with the list of errors under it;
  \<open>NodeNotFound\<close> is \<open>get_node_or_error\<close> finding no order with the given id.
\<close>

datatype mutation_error =
    NodeNotFound
  | ValidationError string "error_item list"

subsection \<open>State: the database and the outward calls\<close>

text \<open>
  The database holds the order rows, the primary keys of the address rows, the users keyed by
  their e-mail address (the unique key \<open>User.objects.get(email=...)\<close> looks up) and the
  warehouse state \<open>'s\<close> (stock ledger and reservations), which only the allocators interpret.
\<close>

record 's database =
  orders :: "nat \<rightharpoonup> order"
  addresses :: "nat set"
  users :: "string \<rightharpoonup> user"
  stock :: 's

text \<open>Every write and every call into a collaborator is appended to \<open>trace\<close>, in program order.\<close>

datatype event =
    AddressDeleted nat
  | OrderSaved nat order
  | AllocateStocks "order_line_info list" string string bool
  | AllocatePreorders "order_line_info list" string bool
  | OrderCreated order_info "user option" "string option" bool

record 's world =
  db :: "'s database"
  trace :: "event list"

text \<open>
  Modelled from the spec: \<open>info.context\<close> carries the requesting user and app and the site
  settings, of which the mutation uses the site-wide reservation-enabled setting
  (\<open>is_reservation_enabled(info.context.site.settings)\<close>).
\<close>

record site_settings =
  reservation_enabled :: bool

definition is_reservation_enabled :: "site_settings \<Rightarrow> bool" where
  "is_reservation_enabled st = reservation_enabled st"

record request_context =
  ctx_user :: "user option"
  ctx_app :: "string option"
  ctx_site_settings :: site_settings

text \<open>
  The collaborators that the source file imports and calls but does not define are parameters.
  The plugin manager, which the mutation only passes on to them, is part of the parameter.
  An allocator returns the warehouse state it leaves behind together with the
  \<open>InsufficientStock\<close> exception it raised, if any; it may have written to the state before
  raising.
\<close>

record 's env =
  get_order_country :: "order \<Rightarrow> string"
  validate_draft_order :: "order \<Rightarrow> string \<Rightarrow> mutation_error option"
  prepare_order_search_document_value :: "order \<Rightarrow> string"
  allocate_stocks ::
    "order_line_info list \<Rightarrow> string \<Rightarrow> string \<Rightarrow> bool \<Rightarrow> 's \<Rightarrow> insufficient_stock option \<times> 's"
  allocate_preorders ::
    "order_line_info list \<Rightarrow> string \<Rightarrow> bool \<Rightarrow> 's \<Rightarrow> insufficient_stock option \<times> 's"
  prepare_insufficient_stock_order_validation_errors :: "insufficient_stock \<Rightarrow> error_item list"
  get_customer_email :: "order \<Rightarrow> string"
  get_last_payment :: "order \<Rightarrow> payment option"

subsection \<open>The mutation\<close>

text \<open>
  Modelled from the spec: \<open>traced_atomic_transaction\<close> is defined in
  \<open>saleor/core/tracing.py\<close>. It is an atomic transaction boundary: when the block raises,
  every database write made inside it is undone and the exception propagates; otherwise
  the writes are kept. The calls made inside the block have happened either way.
\<close>

definition traced_atomic_transaction ::
    "('s world \<Rightarrow> ('e + 'a) \<times> 's world) \<Rightarrow> 's world \<Rightarrow> ('e + 'a) \<times> 's world" where
  "traced_atomic_transaction body w =
     (case body w of
        (Inl exc, w') \<Rightarrow> (Inl exc, w'\<lparr>db := db w\<rparr>)
      | (Inr v, w') \<Rightarrow> (Inr v, w'))"

definition emit :: "event \<Rightarrow> 's world \<Rightarrow> 's world" where
  "emit ev w = w\<lparr>trace := trace w @ [ev]\<rparr>"

definition set_stock :: "'s \<Rightarrow> 's world \<Rightarrow> 's world" where
  "set_stock s w = w\<lparr>db := (db w)\<lparr>stock := s\<rparr>\<rparr>"

text \<open>\<open>update_user_fields\<close>, lines 40-48; \<open>us\<close> is the user table.\<close>

definition update_user_fields :: "(string \<rightharpoonup> user) \<Rightarrow> order \<Rightarrow> order" where
  "update_user_fields us ord =
     (case user ord of
        Some u \<Rightarrow> ord\<lparr>user_email := email u\<rparr>
      | None \<Rightarrow>
          if user_email ord \<noteq> [] then
            (case us (user_email ord) of
               Some u \<Rightarrow> ord\<lparr>user := Some u\<rparr>
             | None \<Rightarrow> ord\<lparr>user := None\<rparr>)
          else ord)"

text \<open>\<open>validate_order\<close>, lines 50-59.\<close>

definition validate_order :: "order \<Rightarrow> mutation_error option" where
  "validate_order ord =
     (if \<not> is_draft ord then
        Some (ValidationError ''id'' [\<lparr>message = ''The order is not draft.'', code = INVALID,
                                      error_variant = None\<rparr>])
      else None)"

text \<open>Lines 77-82 of \<open>perform_mutation\<close>: the shipping fields of an order that needs no shipping.\<close>

definition normalize_shipping :: "order \<Rightarrow> 's world \<Rightarrow> order \<times> 's world" where
  "normalize_shipping ord w =
     (if \<not> is_shipping_required ord then
        let ord1 = ord\<lparr>shipping_method_name := None,
                       shipping_price := zero_taxed_money (currency ord)\<rparr>
        in (case shipping_address ord1 of
              Some a \<Rightarrow>
                (ord1\<lparr>shipping_address := None\<rparr>,
                 emit (AddressDeleted a) (w\<lparr>db := (db w)\<lparr>addresses := addresses (db w) - {a}\<rparr>\<rparr>))
            | None \<Rightarrow> (ord1, w))
      else (ord, w))"

text \<open>\<open>order.save()\<close>, line 85: the row under the order's primary key is overwritten.\<close>

definition save :: "nat \<Rightarrow> order \<Rightarrow> 's world \<Rightarrow> 's world" where
  "save pk ord w = emit (OrderSaved pk ord) (w\<lparr>db := (db w)\<lparr>orders := (orders (db w))(pk \<mapsto> ord)\<rparr>\<rparr>)"

text \<open>
  Lines 96-113: the body of the \<open>try\<close> for one line. Both allocators are called with the
  one-element list \<open>[line_data]\<close> inside one \<open>traced_atomic_transaction\<close>; the second is
  reached only when the first did not raise.
\<close>

definition allocation_block ::
    "'s env \<Rightarrow> request_context \<Rightarrow> string \<Rightarrow> string \<Rightarrow> order_line_info \<Rightarrow> 's world
       \<Rightarrow> (insufficient_stock + unit) \<times> 's world" where
  "allocation_block E C country channel_slug line_data w =
     (let chk = is_reservation_enabled (ctx_site_settings C);
          w1 = emit (AllocateStocks [line_data] country channel_slug chk) w
      in case allocate_stocks E [line_data] country channel_slug chk (stock (db w1)) of
           (Some exc, s1) \<Rightarrow> (Inl exc, set_stock s1 w1)
         | (None, s1) \<Rightarrow>
             (let w2 = emit (AllocatePreorders [line_data] channel_slug chk) (set_stock s1 w1)
              in case allocate_preorders E [line_data] channel_slug chk (stock (db w2)) of
                   (Some exc, s2) \<Rightarrow> (Inl exc, set_stock s2 w2)
                 | (None, s2) \<Rightarrow> (Inr (), set_stock s2 w2)))"

definition allocate_line ::
    "'s env \<Rightarrow> request_context \<Rightarrow> string \<Rightarrow> string \<Rightarrow> order_line_info \<Rightarrow> 's world
       \<Rightarrow> (insufficient_stock + unit) \<times> 's world" where
  "allocate_line E C country channel_slug line_data w =
     traced_atomic_transaction (allocation_block E C country channel_slug line_data) w"

text \<open>
  Lines 89-116: the loop over \<open>order.lines.all()\<close>, with \<open>order_lines_info\<close> as accumulator.
  An \<open>InsufficientStock\<close> raised for a line leaves the loop with the validation error built
  from that exception.
\<close>

fun allocate_lines ::
    "'s env \<Rightarrow> request_context \<Rightarrow> string \<Rightarrow> string \<Rightarrow> order_line list \<Rightarrow> order_line_info list \<Rightarrow> 's world
       \<Rightarrow> (mutation_error + order_line_info list) \<times> 's world" where
  "allocate_lines E C country channel_slug [] order_lines_info w = (Inr order_lines_info, w)"
| "allocate_lines E C country channel_slug (l # ls) order_lines_info w =
     (if track_inventory (variant l) \<or> is_preorder_active (variant l) then
        (let line_data = \<lparr>li_line = l, li_quantity = quantity l, li_variant = variant l\<rparr>;
             order_lines_info' = order_lines_info @ [line_data]
         in case allocate_line E C country channel_slug line_data w of
              (Inl exc, w') \<Rightarrow>
                (Inl (ValidationError ''lines''
                        (prepare_insufficient_stock_order_validation_errors E exc)), w')
            | (Inr u, w') \<Rightarrow> allocate_lines E C country channel_slug ls order_lines_info' w')
      else allocate_lines E C country channel_slug ls order_lines_info w)"

text \<open>\<open>perform_mutation\<close>, lines 61-134.\<close>

definition perform_mutation ::
    "'s env \<Rightarrow> request_context \<Rightarrow> nat \<Rightarrow> 's world \<Rightarrow> (mutation_error + order) \<times> 's world" where
  "perform_mutation E C pk w =
     (case orders (db w) pk of
        None \<Rightarrow> (Inl NodeNotFound, w)
      | Some ord \<Rightarrow>
          (case validate_order ord of
             Some err \<Rightarrow> (Inl err, w)
           | None \<Rightarrow>
               (let country = get_order_country E ord
                in case validate_draft_order E ord country of
                     Some err \<Rightarrow> (Inl err, w)
                   | None \<Rightarrow>
                       (let ord1 = update_user_fields (users (db w)) ord;
                            ord2 = ord1\<lparr>status := UNFULFILLED\<rparr>;
                            (ord3, w1) = normalize_shipping ord2 w;
                            ord4 = ord3\<lparr>search_document := prepare_order_search_document_value E ord3\<rparr>;
                            w2 = save pk ord4 w1;
                            chan = order_channel ord4;
                            channel_slug = slug chan
                        in case allocate_lines E C country channel_slug (lines ord4) [] w2 of
                             (Inl err, w3) \<Rightarrow> (Inl err, w3)
                           | (Inr order_lines_info, w3) \<Rightarrow>
                               (let info = \<lparr>oi_order = ord4,
                                            customer_email = get_customer_email E ord4,
                                            oi_channel = chan,
                                            oi_payment = get_last_payment E ord4,
                                            lines_data = order_lines_info\<rparr>
                                in (Inr ord4,
                                    emit (OrderCreated info (ctx_user C) (ctx_app C) True) w3))))))"

subsection \<open>Reading the result\<close>

text \<open>
  The condition of line 91 and the \<open>OrderLineInfo\<close> of lines 92-94, named so that the
  statements below can refer to them.
\<close>

definition needs_allocation :: "order_line \<Rightarrow> bool" where
  "needs_allocation l = (track_inventory (variant l) \<or> is_preorder_active (variant l))"

definition line_info :: "order_line \<Rightarrow> order_line_info" where
  "line_info l = \<lparr>li_line = l, li_quantity = quantity l, li_variant = variant l\<rparr>"

text \<open>The events a run has appended to the trace it started from.\<close>

definition new_events :: "'s world \<Rightarrow> 's world \<Rightarrow> event list" where
  "new_events w w' = drop (length (trace w)) (trace w')"

text \<open>The lines handed to \<open>allocate_stocks\<close>, and to \<open>allocate_preorders\<close>, in call order.\<close>

fun stock_attempts :: "event list \<Rightarrow> order_line list" where
  "stock_attempts [] = []"
| "stock_attempts (AllocateStocks infos country channel_slug chk # evs) =
     map li_line infos @ stock_attempts evs"
| "stock_attempts (ev # evs) = stock_attempts evs"

fun preorder_attempts :: "event list \<Rightarrow> order_line list" where
  "preorder_attempts [] = []"
| "preorder_attempts (AllocatePreorders infos channel_slug chk # evs) =
     map li_line infos @ preorder_attempts evs"
| "preorder_attempts (ev # evs) = preorder_attempts evs"

text \<open>The lines in the \<open>lines_data\<close> of the completion events.\<close>

fun completion_lines :: "event list \<Rightarrow> order_line list" where
  "completion_lines [] = []"
| "completion_lines (OrderCreated info u a from_draft # evs) =
     map li_line (lines_data info) @ completion_lines evs"
| "completion_lines (ev # evs) = completion_lines evs"

fun is_allocation :: "event \<Rightarrow> bool" where
  "is_allocation (AllocateStocks infos country channel_slug chk) = True"
| "is_allocation (AllocatePreorders infos channel_slug chk) = True"
| "is_allocation ev = False"

fun is_order_created :: "event \<Rightarrow> bool" where
  "is_order_created (OrderCreated info u a from_draft) = True"
| "is_order_created ev = False"

text \<open>
  The \<open>InsufficientStock\<close> exception, if any, that the two allocator calls of lines 98-113
  raise for one line when they start from warehouse state \<open>s\<close>.
\<close>

definition raised_for ::
    "'s env \<Rightarrow> request_context \<Rightarrow> string \<Rightarrow> string \<Rightarrow> order_line_info \<Rightarrow> 's
       \<Rightarrow> insufficient_stock option" where
  "raised_for E C country channel_slug line_data s =
     (let chk = is_reservation_enabled (ctx_site_settings C)
      in case allocate_stocks E [line_data] country channel_slug chk s of
           (Some exc, s1) \<Rightarrow> Some exc
         | (None, s1) \<Rightarrow> fst (allocate_preorders E [line_data] channel_slug chk s1))"

text \<open>The warehouse state after both allocator calls for one line have run to their end.\<close>

definition both_allocated ::
    "'s env \<Rightarrow> request_context \<Rightarrow> string \<Rightarrow> string \<Rightarrow> order_line_info \<Rightarrow> 's \<Rightarrow> 's" where
  "both_allocated E C country channel_slug line_data s =
     (let chk = is_reservation_enabled (ctx_site_settings C)
      in snd (allocate_preorders E [line_data] channel_slug chk
                (snd (allocate_stocks E [line_data] country channel_slug chk s))))"

text \<open>
  The loop of lines 90-116 seen from the warehouse alone: the exception that ends it, if any
  line raises one when the lines are allocated one after the other from state \<open>s\<close>, and the
  warehouse state once every line of a list has been allocated in full.
\<close>

fun first_shortage ::
    "'s env \<Rightarrow> request_context \<Rightarrow> string \<Rightarrow> string \<Rightarrow> order_line list \<Rightarrow> 's
       \<Rightarrow> insufficient_stock option" where
  "first_shortage E C country channel_slug [] s = None"
| "first_shortage E C country channel_slug (l # ls) s =
     (if needs_allocation l then
        (case raised_for E C country channel_slug (line_info l) s of
           Some exc \<Rightarrow> Some exc
         | None \<Rightarrow>
             first_shortage E C country channel_slug ls
               (both_allocated E C country channel_slug (line_info l) s))
      else first_shortage E C country channel_slug ls s)"

fun stock_after ::
    "'s env \<Rightarrow> request_context \<Rightarrow> string \<Rightarrow> string \<Rightarrow> order_line list \<Rightarrow> 's \<Rightarrow> 's" where
  "stock_after E C country channel_slug [] s = s"
| "stock_after E C country channel_slug (l # ls) s =
     stock_after E C country channel_slug ls
       (if needs_allocation l then both_allocated E C country channel_slug (line_info l) s else s)"

subsection \<open>A small shop\<close>

text \<open>
  A concrete warehouse to run the mutation on: one counter of free units per variant for
  physical stock and one for preorder capacity. \<open>pool_allocate\<close> takes the requested
  quantity of every line it applies to, or raises with the shortages and writes nothing.
\<close>

record ledger =
  free_stock :: "(nat \<times> int) list"
  free_preorder :: "(nat \<times> int) list"

fun units :: "(nat \<times> int) list \<Rightarrow> nat \<Rightarrow> int" where
  "units [] v = 0"
| "units ((k, n) # pool) v = (if k = v then n else units pool v)"

fun take_units :: "(nat \<times> int) list \<Rightarrow> nat \<Rightarrow> int \<Rightarrow> (nat \<times> int) list" where
  "take_units [] v q = []"
| "take_units ((k, n) # pool) v q = (if k = v then (k, n - q) # pool else (k, n) # take_units pool v q)"

definition short_of :: "(nat \<times> int) list \<Rightarrow> order_line_info \<Rightarrow> shortage" where
  "short_of pool i =
     \<lparr>shortage_variant = variant_pk (li_variant i), requested = li_quantity i,
      available = units pool (variant_pk (li_variant i))\<rparr>"

definition pool_allocate ::
    "order_line_info list \<Rightarrow> (nat \<times> int) list \<Rightarrow> insufficient_stock option \<times> (nat \<times> int) list" where
  "pool_allocate infos pool =
     (let short = map (short_of pool)
                    (filter (\<lambda>i. units pool (variant_pk (li_variant i)) < li_quantity i) infos)
      in if short = [] then
           (None, foldl (\<lambda>p i. take_units p (variant_pk (li_variant i)) (li_quantity i)) pool infos)
         else (Some (InsufficientStock short), pool))"

definition shop_allocate_stocks ::
    "order_line_info list \<Rightarrow> string \<Rightarrow> string \<Rightarrow> bool \<Rightarrow> ledger \<Rightarrow> insufficient_stock option \<times> ledger" where
  "shop_allocate_stocks infos country channel_slug chk s =
     (case pool_allocate (filter (\<lambda>i. track_inventory (li_variant i)) infos) (free_stock s) of
        (exc, pool) \<Rightarrow> (exc, s\<lparr>free_stock := pool\<rparr>))"

definition shop_allocate_preorders ::
    "order_line_info list \<Rightarrow> string \<Rightarrow> bool \<Rightarrow> ledger \<Rightarrow> insufficient_stock option \<times> ledger" where
  "shop_allocate_preorders infos channel_slug chk s =
     (case pool_allocate (filter (\<lambda>i. is_preorder_active (li_variant i)) infos) (free_preorder s) of
        (exc, pool) \<Rightarrow> (exc, s\<lparr>free_preorder := pool\<rparr>))"

fun shop_error_items :: "insufficient_stock \<Rightarrow> error_item list" where
  "shop_error_items (InsufficientStock items) =
     map (\<lambda>sh. \<lparr>message = ''Insufficient product stock'', code = OTHER_CODE ''insufficient_stock'',
                error_variant = Some (shortage_variant sh)\<rparr>) items"

definition shop_env :: "ledger env" where
  "shop_env =
     \<lparr>get_order_country = (\<lambda>ord. ''US''),
      validate_draft_order =
        (\<lambda>ord country.
           if lines ord = [] then
             Some (ValidationError ''lines''
                     [\<lparr>message = ''Could not create order without any products.'',
                       code = OTHER_CODE ''required'', error_variant = None\<rparr>])
           else None),
      prepare_order_search_document_value = (\<lambda>ord. user_email ord),
      allocate_stocks = shop_allocate_stocks,
      allocate_preorders = shop_allocate_preorders,
      prepare_insufficient_stock_order_validation_errors = shop_error_items,
      get_customer_email = (\<lambda>ord. user_email ord),
      get_last_payment = (\<lambda>ord. Some 900)\<rparr>"

definition shop_context :: request_context where
  "shop_context =
     \<lparr>ctx_user = Some \<lparr>user_pk = 50, email = ''staff@example.com''\<rparr>, ctx_app = None,
      ctx_site_settings = \<lparr>reservation_enabled = False\<rparr>\<rparr>"

definition tracked :: "nat \<Rightarrow> nat \<Rightarrow> int \<Rightarrow> order_line" where
  "tracked lpk vpk q =
     \<lparr>line_pk = lpk, variant = \<lparr>variant_pk = vpk, track_inventory = True, preorder_active = False\<rparr>,
      quantity = q\<rparr>"

definition gift_card_line :: order_line where
  "gift_card_line =
     \<lparr>line_pk = 3, variant = \<lparr>variant_pk = 13, track_inventory = False, preorder_active = False\<rparr>,
      quantity = 1\<rparr>"

definition preorder_line :: order_line where
  "preorder_line =
     \<lparr>line_pk = 4, variant = \<lparr>variant_pk = 14, track_inventory = True, preorder_active = True\<rparr>,
      quantity = 2\<rparr>"

definition draft_order :: "string \<Rightarrow> nat option \<Rightarrow> order_line list \<Rightarrow> order" where
  "draft_order mail addr ls =
     \<lparr>status = DRAFT, user = None, user_email = mail, currency = ''USD'',
      order_channel = \<lparr>channel_pk = 1, slug = ''default''\<rparr>, shipping_required = False,
      shipping_method_name = Some ''DHL'',
      shipping_price = \<lparr>net = \<lparr>amount = 10, money_currency = ''USD''\<rparr>,
                        gross = \<lparr>amount = 12, money_currency = ''USD''\<rparr>\<rparr>,
      shipping_address = addr, search_document = [], lines = ls\<rparr>"

text \<open>
  Order 1 asks for more than is free on both of its lines; order 2 is already unfulfilled;
  order 3 can be allocated and has a line that needs no allocation; order 4 has a line whose
  variant has both flags, with free stock but too little preorder capacity; order 5 has no
  lines and fails the draft validation of \<open>shop_env\<close>; order 6 requires shipping and has a
  user attached whose e-mail differs from the one stored on the order.
\<close>

definition shop_world :: "ledger world" where
  "shop_world =
     \<lparr>db = \<lparr>orders = [1 \<mapsto> draft_order ''ann@example.com'' (Some 71) [tracked 1 11 5, tracked 2 12 4],
                      2 \<mapsto> (draft_order ''ann@example.com'' (Some 72) [tracked 6 11 1])
                             \<lparr>status := UNFULFILLED\<rparr>,
                      3 \<mapsto> draft_order ''bob@example.com'' (Some 73) [tracked 5 15 2, gift_card_line],
                      4 \<mapsto> draft_order ''bob@example.com'' None [preorder_line],
                      5 \<mapsto> draft_order ''bob@example.com'' (Some 75) [],
                      6 \<mapsto> (draft_order ''old@example.com'' (Some 76) [tracked 7 15 1])
                             \<lparr>shipping_required := True,
                              user := Some \<lparr>user_pk = 2, email = ''cy@example.com''\<rparr>\<rparr>],
            addresses = {71, 72, 73, 75, 76},
            users = [''ann@example.com'' \<mapsto> \<lparr>user_pk = 1, email = ''ann@example.com''\<rparr>,
                     ''cy@example.com'' \<mapsto> \<lparr>user_pk = 2, email = ''cy@example.com''\<rparr>],
            stock = \<lparr>free_stock = [(11, 3), (12, 1), (14, 10), (15, 10)],
                     free_preorder = [(14, 1)]\<rparr>\<rparr>,
      trace = []\<rparr>"

subsection \<open>The routing of the allocators\<close>

text \<open>
  Modelled from the spec: \<open>allocate_stocks\<close> and \<open>allocate_preorders\<close> are defined in
  \<open>saleor/warehouse/management.py\<close>, outside the source file, and the mutation hands every
  line that needs allocation to both of them. The spec has each line allocated through one
  path, chosen by the flags of its variant: a preorder-active variant goes to the preorder
  allocator \<open>instead\<close> of the stock path, a variant that tracks inventory and is not
  preorder-active goes to the planner and applier of physical stock, and a variant with
  neither flag is skipped. With the mutation calling both, the choice is the allocators' own:
  each drops the lines that are not on its path and does nothing when no line is left.
\<close>

datatype allocation_path = StockPath | PreorderPath | NoAllocation

definition path_of :: "product_variant \<Rightarrow> allocation_path" where
  "path_of v =
     (if is_preorder_active v then PreorderPath
      else if track_inventory v then StockPath
      else NoAllocation)"

definition routed_allocate_stocks ::
    "(order_line_info list \<Rightarrow> string \<Rightarrow> string \<Rightarrow> bool \<Rightarrow> 's \<Rightarrow> insufficient_stock option \<times> 's)
       \<Rightarrow> order_line_info list \<Rightarrow> string \<Rightarrow> string \<Rightarrow> bool \<Rightarrow> 's \<Rightarrow> insufficient_stock option \<times> 's" where
  "routed_allocate_stocks plan_and_apply infos country channel_slug chk s =
     (let on_path = filter (\<lambda>i. path_of (li_variant i) = StockPath) infos
      in if on_path = [] then (None, s) else plan_and_apply on_path country channel_slug chk s)"

definition routed_allocate_preorders ::
    "(order_line_info list \<Rightarrow> string \<Rightarrow> bool \<Rightarrow> 's \<Rightarrow> insufficient_stock option \<times> 's)
       \<Rightarrow> order_line_info list \<Rightarrow> string \<Rightarrow> bool \<Rightarrow> 's \<Rightarrow> insufficient_stock option \<times> 's" where
  "routed_allocate_preorders allocate_capacity infos channel_slug chk s =
     (let on_path = filter (\<lambda>i. path_of (li_variant i) = PreorderPath) infos
      in if on_path = [] then (None, s) else allocate_capacity on_path channel_slug chk s)"

text \<open>
  The collaborators of \<open>E\<close> with this routing in front of its two allocators, which are then
  the planner and applier of the stock path and the capacity allocator of the preorder path.
\<close>

definition with_routing :: "'s env \<Rightarrow> 's env" where
  "with_routing E =
     E\<lparr>allocate_stocks := routed_allocate_stocks (allocate_stocks E),
       allocate_preorders := routed_allocate_preorders (allocate_preorders E)\<rparr>"




section \<open>Properties\<close>

subsection \<open>State bookkeeping\<close>

lemma db_emit [simp]: "db (emit ev w) = db w"
  by (simp add: emit_def)

lemma trace_emit [simp]: "trace (emit ev w) = trace w @ [ev]"
  by (simp add: emit_def)

lemma db_set_stock [simp]: "db (set_stock s w) = (db w)\<lparr>stock := s\<rparr>"
  by (simp add: set_stock_def)

lemma trace_set_stock [simp]: "trace (set_stock s w) = trace w"
  by (simp add: set_stock_def)

lemma new_events_same [simp]: "new_events w w = []"
  by (simp add: new_events_def)

lemma new_events_append: "trace w' = trace w @ evs \<Longrightarrow> new_events w w' = evs"
  by (simp add: new_events_def)

lemma stock_attempts_append [simp]:
  "stock_attempts (xs @ ys) = stock_attempts xs @ stock_attempts ys"
  by (induction xs rule: stock_attempts.induct) simp_all

lemma completion_lines_append [simp]:
  "completion_lines (xs @ ys) = completion_lines xs @ completion_lines ys"
  by (induction xs rule: completion_lines.induct) simp_all

lemma preorder_attempts_append [simp]:
  "preorder_attempts (xs @ ys) = preorder_attempts xs @ preorder_attempts ys"
  by (induction xs rule: preorder_attempts.induct) simp_all

text \<open>One line: what \<open>allocate_line\<close> returns, by the outcome of the two allocator calls.\<close>

lemma allocate_line_Inl:
  assumes "allocate_line E C country channel_slug ld w = (Inl exc, w')"
  shows "db w' = db w"
    and "raised_for E C country channel_slug ld (stock (db w)) = Some exc"
    and "trace w' = trace w @
           AllocateStocks [ld] country channel_slug (is_reservation_enabled (ctx_site_settings C)) #
           (if fst (allocate_stocks E [ld] country channel_slug
                      (is_reservation_enabled (ctx_site_settings C)) (stock (db w))) = None
            then [AllocatePreorders [ld] channel_slug (is_reservation_enabled (ctx_site_settings C))]
            else [])"
  using assms
  by (auto simp: allocate_line_def traced_atomic_transaction_def allocation_block_def raised_for_def
        Let_def split: prod.splits option.splits sum.splits)

lemma allocate_line_Inr:
  assumes "allocate_line E C country channel_slug ld w = (Inr u, w')"
  shows "db w' = (db w)\<lparr>stock := both_allocated E C country channel_slug ld (stock (db w))\<rparr>"
    and "raised_for E C country channel_slug ld (stock (db w)) = None"
    and "trace w' = trace w @
           [AllocateStocks [ld] country channel_slug (is_reservation_enabled (ctx_site_settings C)),
            AllocatePreorders [ld] channel_slug (is_reservation_enabled (ctx_site_settings C))]"
  using assms
  by (auto simp: allocate_line_def traced_atomic_transaction_def allocation_block_def raised_for_def
        both_allocated_def Let_def split: prod.splits option.splits sum.splits)


lemma allocate_lines_Cons:
  "allocate_lines E C country channel_slug (l # ls) infos w =
     (if needs_allocation l then
        (case allocate_line E C country channel_slug (line_info l) w of
           (Inl exc, w') \<Rightarrow>
             (Inl (ValidationError ''lines''
                     (prepare_insufficient_stock_order_validation_errors E exc)), w')
         | (Inr u, w') \<Rightarrow> allocate_lines E C country channel_slug ls (infos @ [line_info l]) w')
      else allocate_lines E C country channel_slug ls infos w)"
  unfolding allocate_lines.simps Let_def needs_allocation_def line_info_def
  by (rule refl)

declare allocate_lines.simps(2) [simp del]

lemma li_line_line_info [simp]: "li_line (line_info l) = l"
  by (simp add: line_info_def)

text \<open>The loop ran to its end.\<close>

lemma allocate_lines_Inr:
  assumes "allocate_lines E C country channel_slug ls infos w = (Inr infos', w')"
  shows "infos' = infos @ map line_info (filter needs_allocation ls) \<and>
         first_shortage E C country channel_slug ls (stock (db w)) = None \<and>
         db w' = (db w)\<lparr>stock := stock_after E C country channel_slug ls (stock (db w))\<rparr> \<and>
         (\<exists>evs. trace w' = trace w @ evs \<and> filter is_allocation evs = evs \<and>
                stock_attempts evs = filter needs_allocation ls \<and>
                preorder_attempts evs = filter needs_allocation ls)"
  using assms
proof (induction ls arbitrary: infos w)
  case Nil
  then show ?case by simp
next
  case (Cons l ls)
  show ?case
  proof (cases "needs_allocation l")
    case False
    with Cons.prems have "allocate_lines E C country channel_slug ls infos w = (Inr infos', w')"
      by (simp add: allocate_lines_Cons)
    from Cons.IH [OF this] False show ?thesis by simp
  next
    case True
    obtain r w1 where al: "allocate_line E C country channel_slug (line_info l) w = (r, w1)"
      by fastforce
    with True Cons.prems obtain u where r: "r = Inr u"
      and rest: "allocate_lines E C country channel_slug ls (infos @ [line_info l]) w1 = (Inr infos', w')"
      by (cases r) (auto simp: allocate_lines_Cons)
    note step = allocate_line_Inr [OF al [unfolded r]]
    from Cons.IH [OF rest] obtain evs where
      ih: "infos' = (infos @ [line_info l]) @ map line_info (filter needs_allocation ls)"
          "first_shortage E C country channel_slug ls (stock (db w1)) = None"
          "db w' = (db w1)\<lparr>stock := stock_after E C country channel_slug ls (stock (db w1))\<rparr>"
          "trace w' = trace w1 @ evs" "filter is_allocation evs = evs"
          "stock_attempts evs = filter needs_allocation ls"
          "preorder_attempts evs = filter needs_allocation ls"
      by blast
    have "trace w' = trace w @
            ([AllocateStocks [line_info l] country channel_slug
                (is_reservation_enabled (ctx_site_settings C)),
              AllocatePreorders [line_info l] channel_slug
                (is_reservation_enabled (ctx_site_settings C))] @ evs)"
      using ih(4) step(3) by simp
    moreover have "filter is_allocation
            ([AllocateStocks [line_info l] country channel_slug
                (is_reservation_enabled (ctx_site_settings C)),
              AllocatePreorders [line_info l] channel_slug
                (is_reservation_enabled (ctx_site_settings C))] @ evs) =
            [AllocateStocks [line_info l] country channel_slug
                (is_reservation_enabled (ctx_site_settings C)),
              AllocatePreorders [line_info l] channel_slug
                (is_reservation_enabled (ctx_site_settings C))] @ evs"
      using ih(5) by simp
    moreover have "stock_attempts
            ([AllocateStocks [line_info l] country channel_slug
                (is_reservation_enabled (ctx_site_settings C)),
              AllocatePreorders [line_info l] channel_slug
                (is_reservation_enabled (ctx_site_settings C))] @ evs) =
            filter needs_allocation (l # ls)"
      using ih(6) True by simp
    moreover have "preorder_attempts
            ([AllocateStocks [line_info l] country channel_slug
                (is_reservation_enabled (ctx_site_settings C)),
              AllocatePreorders [line_info l] channel_slug
                (is_reservation_enabled (ctx_site_settings C))] @ evs) =
            filter needs_allocation (l # ls)"
      using ih(7) True by simp
    moreover have "infos' = infos @ map line_info (filter needs_allocation (l # ls))"
      using ih(1) True by simp
    moreover have "first_shortage E C country channel_slug (l # ls) (stock (db w)) = None"
      using ih(2) step(1,2) True by simp
    moreover have "db w' =
        (db w)\<lparr>stock := stock_after E C country channel_slug (l # ls) (stock (db w))\<rparr>"
      using ih(3) step(1) True by simp
    ultimately show ?thesis by blast
  qed
qed


text \<open>The loop was left by an \<open>InsufficientStock\<close>.\<close>

lemma allocate_lines_Inl:
  assumes "allocate_lines E C country channel_slug ls infos w = (Inl err, w')"
  shows "\<exists>pre l post exc evs.
           ls = pre @ l # post \<and> needs_allocation l \<and>
           first_shortage E C country channel_slug pre (stock (db w)) = None \<and>
           raised_for E C country channel_slug (line_info l)
             (stock_after E C country channel_slug pre (stock (db w))) = Some exc \<and>
           first_shortage E C country channel_slug ls (stock (db w)) = Some exc \<and>
           err = ValidationError ''lines'' (prepare_insufficient_stock_order_validation_errors E exc) \<and>
           db w' = (db w)\<lparr>stock := stock_after E C country channel_slug pre (stock (db w))\<rparr> \<and>
           trace w' = trace w @ evs \<and> filter is_allocation evs = evs \<and>
           stock_attempts evs = filter needs_allocation pre @ [l] \<and>
           (preorder_attempts evs = filter needs_allocation pre \<or>
            preorder_attempts evs = filter needs_allocation pre @ [l])"
  using assms
proof (induction ls arbitrary: infos w)
  case Nil
  then show ?case by simp
next
  case (Cons a ls)
  let ?chk = "is_reservation_enabled (ctx_site_settings C)"
  show ?case
  proof (cases "needs_allocation a")
    case False
    with Cons.prems have "allocate_lines E C country channel_slug ls infos w = (Inl err, w')"
      by (simp add: allocate_lines_Cons)
    from Cons.IH [OF this] obtain pre l post exc evs where
      ih: "ls = pre @ l # post" "needs_allocation l"
          "first_shortage E C country channel_slug pre (stock (db w)) = None"
          "raised_for E C country channel_slug (line_info l)
             (stock_after E C country channel_slug pre (stock (db w))) = Some exc"
          "first_shortage E C country channel_slug ls (stock (db w)) = Some exc"
          "err = ValidationError ''lines'' (prepare_insufficient_stock_order_validation_errors E exc)"
          "db w' = (db w)\<lparr>stock := stock_after E C country channel_slug pre (stock (db w))\<rparr>"
          "trace w' = trace w @ evs" "filter is_allocation evs = evs"
          "stock_attempts evs = filter needs_allocation pre @ [l]"
          "preorder_attempts evs = filter needs_allocation pre \<or>
           preorder_attempts evs = filter needs_allocation pre @ [l]"
      by blast
    show ?thesis
      apply (rule exI [of _ "a # pre"], rule exI [of _ l], rule exI [of _ post],
             rule exI [of _ exc], rule exI [of _ evs])
      using ih False by simp
  next
    case True
    obtain r w1 where al: "allocate_line E C country channel_slug (line_info a) w = (r, w1)"
      by fastforce
    show ?thesis
    proof (cases r)
      case (Inl exc)
      with al True Cons.prems have
        res: "err = ValidationError ''lines'' (prepare_insufficient_stock_order_validation_errors E exc)"
             "w' = w1"
        by (simp_all add: allocate_lines_Cons)
      note step = allocate_line_Inl [OF al [unfolded Inl]]
      show ?thesis
        apply (rule exI [of _ "[]"], rule exI [of _ a], rule exI [of _ ls], rule exI [of _ exc],
               rule exI [of _ "AllocateStocks [line_info a] country channel_slug ?chk #
                 (if fst (allocate_stocks E [line_info a] country channel_slug ?chk (stock (db w))) = None
                  then [AllocatePreorders [line_info a] channel_slug ?chk] else [])"])
        using res step True by simp
    next
      case (Inr u)
      with al True Cons.prems have
        rest: "allocate_lines E C country channel_slug ls (infos @ [line_info a]) w1 = (Inl err, w')"
        by (simp add: allocate_lines_Cons)
      note step = allocate_line_Inr [OF al [unfolded Inr]]
      from Cons.IH [OF rest] obtain pre l post exc evs where
        ih: "ls = pre @ l # post" "needs_allocation l"
            "first_shortage E C country channel_slug pre (stock (db w1)) = None"
            "raised_for E C country channel_slug (line_info l)
               (stock_after E C country channel_slug pre (stock (db w1))) = Some exc"
            "first_shortage E C country channel_slug ls (stock (db w1)) = Some exc"
            "err = ValidationError ''lines'' (prepare_insufficient_stock_order_validation_errors E exc)"
            "db w' = (db w1)\<lparr>stock := stock_after E C country channel_slug pre (stock (db w1))\<rparr>"
            "trace w' = trace w1 @ evs" "filter is_allocation evs = evs"
            "stock_attempts evs = filter needs_allocation pre @ [l]"
            "preorder_attempts evs = filter needs_allocation pre \<or>
             preorder_attempts evs = filter needs_allocation pre @ [l]"
        by blast
      show ?thesis
        apply (rule exI [of _ "a # pre"], rule exI [of _ l], rule exI [of _ post],
               rule exI [of _ exc],
               rule exI [of _ "[AllocateStocks [line_info a] country channel_slug ?chk,
                                AllocatePreorders [line_info a] channel_slug ?chk] @ evs"])
        using ih step True by simp
    qed
  qed
qed

text \<open>The loop writes to the warehouse state only.\<close>

lemma allocate_lines_frame:
  assumes "allocate_lines E C country channel_slug ls infos w = (r, w')"
  shows "orders (db w') = orders (db w)" and "addresses (db w') = addresses (db w)"
    and "users (db w') = users (db w)"
proof -
  have "\<exists>s. db w' = (db w)\<lparr>stock := s\<rparr>"
  proof (cases r)
    case (Inl err)
    from allocate_lines_Inl [OF assms [unfolded Inl]] show ?thesis by blast
  next
    case (Inr infos')
    from allocate_lines_Inr [OF assms [unfolded Inr]] show ?thesis by blast
  qed
  then show "orders (db w') = orders (db w)" and "addresses (db w') = addresses (db w)"
    and "users (db w') = users (db w)"
    by auto
qed


text \<open>
  Lines 70-88 for a draft order that passes \<open>validate_draft_order\<close>: the order as saved and
  the state in which the loop over the lines starts.
\<close>

lemma perform_mutation_draft:
  assumes "orders (db w) pk = Some ord" and "status ord = DRAFT"
    and "validate_draft_order E ord (get_order_country E ord) = None"
  obtains ord' w2 where
    "status ord' = UNFULFILLED" and "lines ord' = lines ord"
    and "order_channel ord' = order_channel ord"
    and "user ord' = user (update_user_fields (users (db w)) ord)"
    and "user_email ord' = user_email (update_user_fields (users (db w)) ord)"
    and "shipping_required ord \<Longrightarrow>
           shipping_method_name ord' = shipping_method_name ord \<and>
           shipping_price ord' = shipping_price ord \<and>
           shipping_address ord' = shipping_address ord"
    and "\<not> shipping_required ord \<Longrightarrow>
           shipping_method_name ord' = None \<and>
           shipping_price ord' = zero_taxed_money (currency ord) \<and>
           shipping_address ord' = None"
    and "orders (db w2) = (orders (db w))(pk \<mapsto> ord')"
    and "addresses (db w2) =
           addresses (db w) - set_option (if shipping_required ord then None else shipping_address ord)"
    and "users (db w2) = users (db w)" and "stock (db w2) = stock (db w)"
    and "trace w2 = trace w @
           (case (if shipping_required ord then None else shipping_address ord) of
              None \<Rightarrow> [] | Some a \<Rightarrow> [AddressDeleted a]) @ [OrderSaved pk ord']"
    and "perform_mutation E C pk w =
           (case allocate_lines E C (get_order_country E ord) (slug (order_channel ord))
                   (lines ord) [] w2 of
              (Inl err, w3) \<Rightarrow> (Inl err, w3)
            | (Inr infos, w3) \<Rightarrow>
                (Inr ord',
                 emit (OrderCreated
                         \<lparr>oi_order = ord', customer_email = get_customer_email E ord',
                          oi_channel = order_channel ord, oi_payment = get_last_payment E ord',
                          lines_data = infos\<rparr> (ctx_user C) (ctx_app C) True) w3))"
proof -
  define ord2 where "ord2 = (update_user_fields (users (db w)) ord)\<lparr>status := UNFULFILLED\<rparr>"
  define ord3 where "ord3 = fst (normalize_shipping ord2 w)"
  define w1 where "w1 = snd (normalize_shipping ord2 w)"
  define ord4 where "ord4 = ord3\<lparr>search_document := prepare_order_search_document_value E ord3\<rparr>"
  define w2 where "w2 = save pk ord4 w1"
  have keep: "shipping_required ord2 = shipping_required ord" "currency ord2 = currency ord"
    "shipping_address ord2 = shipping_address ord" "lines ord2 = lines ord"
    "order_channel ord2 = order_channel ord" "shipping_method_name ord2 = shipping_method_name ord"
    "shipping_price ord2 = shipping_price ord" "status ord2 = UNFULFILLED"
    "user ord2 = user (update_user_fields (users (db w)) ord)"
    "user_email ord2 = user_email (update_user_fields (users (db w)) ord)"
    by (simp_all add: ord2_def update_user_fields_def split: option.splits)
  have n: "normalize_shipping ord2 w = (ord3, w1)"
    by (simp add: ord3_def w1_def)
  have 1: "status ord4 = UNFULFILLED" "lines ord4 = lines ord"
    "order_channel ord4 = order_channel ord"
    "user ord4 = user (update_user_fields (users (db w)) ord)"
    "user_email ord4 = user_email (update_user_fields (users (db w)) ord)"
    using keep
    by (simp_all add: ord4_def ord3_def normalize_shipping_def is_shipping_required_def Let_def
          split: option.splits)
  have 2: "shipping_required ord \<Longrightarrow>
           shipping_method_name ord4 = shipping_method_name ord \<and>
           shipping_price ord4 = shipping_price ord \<and>
           shipping_address ord4 = shipping_address ord"
    using keep
    by (simp add: ord4_def ord3_def normalize_shipping_def is_shipping_required_def)
  have 3: "\<not> shipping_required ord \<Longrightarrow>
           shipping_method_name ord4 = None \<and>
           shipping_price ord4 = zero_taxed_money (currency ord) \<and>
           shipping_address ord4 = None"
    using keep
    by (simp add: ord4_def ord3_def normalize_shipping_def is_shipping_required_def Let_def
          split: option.splits)
  have 4: "orders (db w2) = (orders (db w))(pk \<mapsto> ord4)"
    "addresses (db w2) =
       addresses (db w) - set_option (if shipping_required ord then None else shipping_address ord)"
    "users (db w2) = users (db w)" "stock (db w2) = stock (db w)"
    "trace w2 = trace w @
           (case (if shipping_required ord then None else shipping_address ord) of
              None \<Rightarrow> [] | Some a \<Rightarrow> [AddressDeleted a]) @ [OrderSaved pk ord4]"
    using keep
    by (simp_all add: w2_def w1_def save_def normalize_shipping_def is_shipping_required_def Let_def
          split: option.splits)
  have 5: "perform_mutation E C pk w =
           (case allocate_lines E C (get_order_country E ord) (slug (order_channel ord))
                   (lines ord) [] w2 of
              (Inl err, w3) \<Rightarrow> (Inl err, w3)
            | (Inr infos, w3) \<Rightarrow>
                (Inr ord4,
                 emit (OrderCreated
                         \<lparr>oi_order = ord4, customer_email = get_customer_email E ord4,
                          oi_channel = order_channel ord, oi_payment = get_last_payment E ord4,
                          lines_data = infos\<rparr> (ctx_user C) (ctx_app C) True) w3))"
  proof -
    have "lines ord3 = lines ord" "order_channel ord3 = order_channel ord"
      using 1 by (simp_all add: ord4_def)
    with assms n show ?thesis
      by (simp add: perform_mutation_def validate_order_def is_draft_def Let_def
            ord2_def [symmetric] ord4_def w2_def split: prod.splits sum.splits)
  qed
  from that [OF 1 2 3 4 5] show thesis by blast
qed

subsection \<open>The three ways a run can end\<close>

lemma perform_mutation_not_found:
  "orders (db w) pk = None \<Longrightarrow> perform_mutation E C pk w = (Inl NodeNotFound, w)"
  by (simp add: perform_mutation_def)

lemma perform_mutation_not_draft:
  "orders (db w) pk = Some ord \<Longrightarrow> status ord \<noteq> DRAFT \<Longrightarrow>
   \<exists>err. perform_mutation E C pk w = (Inl err, w)"
  by (simp add: perform_mutation_def validate_order_def is_draft_def)

lemma perform_mutation_invalid:
  "orders (db w) pk = Some ord \<Longrightarrow> status ord = DRAFT \<Longrightarrow>
   validate_draft_order E ord (get_order_country E ord) = Some err \<Longrightarrow>
   perform_mutation E C pk w = (Inl err, w)"
  by (simp add: perform_mutation_def validate_order_def is_draft_def)

lemma perform_mutation_cases:
  obtains (rejected) err where "perform_mutation E C pk w = (Inl err, w)"
  | (draft) ord where "orders (db w) pk = Some ord" and "status ord = DRAFT"
      and "validate_draft_order E ord (get_order_country E ord) = None"
proof (cases "orders (db w) pk")
  case None
  then show ?thesis using rejected perform_mutation_not_found by blast
next
  case (Some ord)
  show ?thesis
  proof (cases "status ord = DRAFT")
    case False
    with Some show ?thesis using rejected perform_mutation_not_draft by blast
  next
    case True
    show ?thesis
    proof (cases "validate_draft_order E ord (get_order_country E ord)")
      case None
      with Some True show ?thesis using draft by blast
    next
      case (Some err)
      with \<open>orders (db w) pk = Some ord\<close> True show ?thesis
        using rejected perform_mutation_invalid by blast
    qed
  qed
qed

text \<open>A completion that returns the order.\<close>

lemma completion_Inr:
  assumes "orders (db w) pk = Some ord" and "status ord = DRAFT"
    and "validate_draft_order E ord (get_order_country E ord) = None"
    and "perform_mutation E C pk w = (Inr ord', w')"
  obtains evs where
    "status ord' = UNFULFILLED" and "lines ord' = lines ord"
    and "order_channel ord' = order_channel ord"
    and "user ord' = user (update_user_fields (users (db w)) ord)"
    and "user_email ord' = user_email (update_user_fields (users (db w)) ord)"
    and "shipping_required ord \<Longrightarrow>
           shipping_method_name ord' = shipping_method_name ord \<and>
           shipping_price ord' = shipping_price ord \<and>
           shipping_address ord' = shipping_address ord"
    and "\<not> shipping_required ord \<Longrightarrow>
           shipping_method_name ord' = None \<and>
           shipping_price ord' = zero_taxed_money (currency ord) \<and>
           shipping_address ord' = None"
    and "orders (db w') = (orders (db w))(pk \<mapsto> ord')"
    and "addresses (db w') =
           addresses (db w) - set_option (if shipping_required ord then None else shipping_address ord)"
    and "users (db w') = users (db w)"
    and "stock (db w') =
           stock_after E C (get_order_country E ord) (slug (order_channel ord)) (lines ord)
             (stock (db w))"
    and "first_shortage E C (get_order_country E ord) (slug (order_channel ord)) (lines ord)
           (stock (db w)) = None"
    and "new_events w w' =
           (case (if shipping_required ord then None else shipping_address ord) of
              None \<Rightarrow> [] | Some a \<Rightarrow> [AddressDeleted a]) @ OrderSaved pk ord' # evs @
           [OrderCreated
              \<lparr>oi_order = ord', customer_email = get_customer_email E ord',
               oi_channel = order_channel ord, oi_payment = get_last_payment E ord',
               lines_data = map line_info (filter needs_allocation (lines ord))\<rparr>
              (ctx_user C) (ctx_app C) True]"
    and "filter is_allocation evs = evs"
    and "stock_attempts evs = filter needs_allocation (lines ord)"
    and "preorder_attempts evs = filter needs_allocation (lines ord)"
proof -
  from perform_mutation_draft [OF assms(1-3), of C] obtain o2 w2 where
    p: "status o2 = UNFULFILLED" "lines o2 = lines ord"
      "order_channel o2 = order_channel ord"
      "user o2 = user (update_user_fields (users (db w)) ord)"
      "user_email o2 = user_email (update_user_fields (users (db w)) ord)"
      "shipping_required ord \<Longrightarrow>
           shipping_method_name o2 = shipping_method_name ord \<and>
           shipping_price o2 = shipping_price ord \<and>
           shipping_address o2 = shipping_address ord"
      "\<not> shipping_required ord \<Longrightarrow>
           shipping_method_name o2 = None \<and>
           shipping_price o2 = zero_taxed_money (currency ord) \<and>
           shipping_address o2 = None"
      "orders (db w2) = (orders (db w))(pk \<mapsto> o2)"
      "addresses (db w2) =
           addresses (db w) - set_option (if shipping_required ord then None else shipping_address ord)"
      "users (db w2) = users (db w)" "stock (db w2) = stock (db w)"
      "trace w2 = trace w @
           (case (if shipping_required ord then None else shipping_address ord) of
              None \<Rightarrow> [] | Some a \<Rightarrow> [AddressDeleted a]) @ [OrderSaved pk o2]"
    and pm: "perform_mutation E C pk w =
           (case allocate_lines E C (get_order_country E ord) (slug (order_channel ord))
                   (lines ord) [] w2 of
              (Inl err, w3) \<Rightarrow> (Inl err, w3)
            | (Inr infos, w3) \<Rightarrow>
                (Inr o2,
                 emit (OrderCreated
                         \<lparr>oi_order = o2, customer_email = get_customer_email E o2,
                          oi_channel = order_channel ord, oi_payment = get_last_payment E o2,
                          lines_data = infos\<rparr> (ctx_user C) (ctx_app C) True) w3))"
    by blast
  obtain r w3 where al: "allocate_lines E C (get_order_country E ord) (slug (order_channel ord))
                   (lines ord) [] w2 = (r, w3)"
    by fastforce
  with pm assms(4) obtain infos where r: "r = Inr infos" and o2: "o2 = ord'"
    and w': "w' = emit (OrderCreated
                         \<lparr>oi_order = o2, customer_email = get_customer_email E o2,
                          oi_channel = order_channel ord, oi_payment = get_last_payment E o2,
                          lines_data = infos\<rparr> (ctx_user C) (ctx_app C) True) w3"
    by (cases r) auto
  from allocate_lines_Inr [OF al [unfolded r]] obtain evs where
    l: "infos = map line_info (filter needs_allocation (lines ord))"
       "first_shortage E C (get_order_country E ord) (slug (order_channel ord)) (lines ord)
          (stock (db w2)) = None"
       "db w3 = (db w2)\<lparr>stock := stock_after E C (get_order_country E ord)
          (slug (order_channel ord)) (lines ord) (stock (db w2))\<rparr>"
       "trace w3 = trace w2 @ evs" "filter is_allocation evs = evs"
       "stock_attempts evs = filter needs_allocation (lines ord)"
       "preorder_attempts evs = filter needs_allocation (lines ord)"
    by auto
  have ne: "new_events w w' =
           (case (if shipping_required ord then None else shipping_address ord) of
              None \<Rightarrow> [] | Some a \<Rightarrow> [AddressDeleted a]) @ OrderSaved pk ord' # evs @
           [OrderCreated
              \<lparr>oi_order = ord', customer_email = get_customer_email E ord',
               oi_channel = order_channel ord, oi_payment = get_last_payment E ord',
               lines_data = map line_info (filter needs_allocation (lines ord))\<rparr>
              (ctx_user C) (ctx_app C) True]"
    by (rule new_events_append) (simp add: w' l(1,4) p(12) o2)
  show thesis
    using that [OF p(1-7) [unfolded o2] _ _ _ _ _ ne l(5-7)] p(8-11) l(2,3) w' o2 by simp
qed

text \<open>A completion that is left by an \<open>InsufficientStock\<close>.\<close>

lemma completion_Inl:
  assumes "orders (db w) pk = Some ord" and "status ord = DRAFT"
    and "validate_draft_order E ord (get_order_country E ord) = None"
    and "perform_mutation E C pk w = (Inl err, w')"
  obtains ord' pre l post exc evs where
    "status ord' = UNFULFILLED" and "lines ord' = lines ord"
    and "order_channel ord' = order_channel ord"
    and "user ord' = user (update_user_fields (users (db w)) ord)"
    and "user_email ord' = user_email (update_user_fields (users (db w)) ord)"
    and "shipping_required ord \<Longrightarrow>
           shipping_method_name ord' = shipping_method_name ord \<and>
           shipping_price ord' = shipping_price ord \<and>
           shipping_address ord' = shipping_address ord"
    and "\<not> shipping_required ord \<Longrightarrow>
           shipping_method_name ord' = None \<and>
           shipping_price ord' = zero_taxed_money (currency ord) \<and>
           shipping_address ord' = None"
    and "orders (db w') = (orders (db w))(pk \<mapsto> ord')"
    and "addresses (db w') =
           addresses (db w) - set_option (if shipping_required ord then None else shipping_address ord)"
    and "users (db w') = users (db w)"
    and "stock (db w') =
           stock_after E C (get_order_country E ord) (slug (order_channel ord)) pre (stock (db w))"
    and "lines ord = pre @ l # post" and "needs_allocation l"
    and "first_shortage E C (get_order_country E ord) (slug (order_channel ord)) pre
           (stock (db w)) = None"
    and "raised_for E C (get_order_country E ord) (slug (order_channel ord)) (line_info l)
           (stock_after E C (get_order_country E ord) (slug (order_channel ord)) pre
              (stock (db w))) = Some exc"
    and "first_shortage E C (get_order_country E ord) (slug (order_channel ord)) (lines ord)
           (stock (db w)) = Some exc"
    and "err = ValidationError ''lines'' (prepare_insufficient_stock_order_validation_errors E exc)"
    and "new_events w w' =
           (case (if shipping_required ord then None else shipping_address ord) of
              None \<Rightarrow> [] | Some a \<Rightarrow> [AddressDeleted a]) @ OrderSaved pk ord' # evs"
    and "filter is_allocation evs = evs"
    and "stock_attempts evs = filter needs_allocation pre @ [l]"
    and "preorder_attempts evs = filter needs_allocation pre \<or>
         preorder_attempts evs = filter needs_allocation pre @ [l]"
proof -
  from perform_mutation_draft [OF assms(1-3), of C] obtain o2 w2 where
    p: "status o2 = UNFULFILLED" "lines o2 = lines ord"
      "order_channel o2 = order_channel ord"
      "user o2 = user (update_user_fields (users (db w)) ord)"
      "user_email o2 = user_email (update_user_fields (users (db w)) ord)"
      "shipping_required ord \<Longrightarrow>
           shipping_method_name o2 = shipping_method_name ord \<and>
           shipping_price o2 = shipping_price ord \<and>
           shipping_address o2 = shipping_address ord"
      "\<not> shipping_required ord \<Longrightarrow>
           shipping_method_name o2 = None \<and>
           shipping_price o2 = zero_taxed_money (currency ord) \<and>
           shipping_address o2 = None"
      "orders (db w2) = (orders (db w))(pk \<mapsto> o2)"
      "addresses (db w2) =
           addresses (db w) - set_option (if shipping_required ord then None else shipping_address ord)"
      "users (db w2) = users (db w)" "stock (db w2) = stock (db w)"
      "trace w2 = trace w @
           (case (if shipping_required ord then None else shipping_address ord) of
              None \<Rightarrow> [] | Some a \<Rightarrow> [AddressDeleted a]) @ [OrderSaved pk o2]"
    and pm: "perform_mutation E C pk w =
           (case allocate_lines E C (get_order_country E ord) (slug (order_channel ord))
                   (lines ord) [] w2 of
              (Inl err, w3) \<Rightarrow> (Inl err, w3)
            | (Inr infos, w3) \<Rightarrow>
                (Inr o2,
                 emit (OrderCreated
                         \<lparr>oi_order = o2, customer_email = get_customer_email E o2,
                          oi_channel = order_channel ord, oi_payment = get_last_payment E o2,
                          lines_data = infos\<rparr> (ctx_user C) (ctx_app C) True) w3))"
    by blast
  obtain r w3 where al: "allocate_lines E C (get_order_country E ord) (slug (order_channel ord))
                   (lines ord) [] w2 = (r, w3)"
    by fastforce
  with pm assms(4) have r: "r = Inl err" and w': "w' = w3"
    by (cases r; auto)+
  from allocate_lines_Inl [OF al [unfolded r]] obtain pre l post exc evs where
    l: "lines ord = pre @ l # post" "needs_allocation l"
       "first_shortage E C (get_order_country E ord) (slug (order_channel ord)) pre
          (stock (db w2)) = None"
       "raised_for E C (get_order_country E ord) (slug (order_channel ord)) (line_info l)
          (stock_after E C (get_order_country E ord) (slug (order_channel ord)) pre
             (stock (db w2))) = Some exc"
       "first_shortage E C (get_order_country E ord) (slug (order_channel ord)) (lines ord)
          (stock (db w2)) = Some exc"
       "err = ValidationError ''lines'' (prepare_insufficient_stock_order_validation_errors E exc)"
       "db w3 = (db w2)\<lparr>stock := stock_after E C (get_order_country E ord)
          (slug (order_channel ord)) pre (stock (db w2))\<rparr>"
       "trace w3 = trace w2 @ evs" "filter is_allocation evs = evs"
       "stock_attempts evs = filter needs_allocation pre @ [l]"
       "preorder_attempts evs = filter needs_allocation pre \<or>
        preorder_attempts evs = filter needs_allocation pre @ [l]"
    by blast
  have ne: "new_events w w' =
           (case (if shipping_required ord then None else shipping_address ord) of
              None \<Rightarrow> [] | Some a \<Rightarrow> [AddressDeleted a]) @ OrderSaved pk o2 # evs"
    by (rule new_events_append) (simp add: w' l(8) p(12))
  show thesis
    using that [OF p(1-7) _ _ _ _ l(1,2) _ _ _ l(6) ne l(9-11)] p(8-11) l(3,4,5,7) w' by simp
qed

subsection \<open>Events\<close>

lemma allocation_events_only:
  assumes "filter is_allocation evs = evs"
  shows "filter is_order_created evs = []" and "completion_lines evs = []"
proof -
  have "\<forall>e\<in>set evs. is_allocation e"
    using assms by (simp add: filter_id_conv)
  then show "filter is_order_created evs = []" and "completion_lines evs = []"
    by (induction evs rule: completion_lines.induct) simp_all
qed

lemma deletion_events_only [simp]:
  "filter is_allocation (case x of None \<Rightarrow> [] | Some a \<Rightarrow> [AddressDeleted a]) = []"
  "filter is_order_created (case x of None \<Rightarrow> [] | Some a \<Rightarrow> [AddressDeleted a]) = []"
  "stock_attempts (case x of None \<Rightarrow> [] | Some a \<Rightarrow> [AddressDeleted a]) = []"
  "preorder_attempts (case x of None \<Rightarrow> [] | Some a \<Rightarrow> [AddressDeleted a]) = []"
  "completion_lines (case x of None \<Rightarrow> [] | Some a \<Rightarrow> [AddressDeleted a]) = []"
  by (simp_all split: option.splits)

lemmas shop_defs =
  shop_world_def shop_env_def shop_context_def draft_order_def tracked_def gift_card_line_def
  preorder_line_def perform_mutation_def validate_order_def is_draft_def update_user_fields_def
  normalize_shipping_def is_shipping_required_def save_def emit_def allocate_line_def
  allocation_block_def traced_atomic_transaction_def set_stock_def is_reservation_enabled_def
  is_preorder_active_def shop_allocate_stocks_def shop_allocate_preorders_def pool_allocate_def
  short_of_def zero_taxed_money_def allocate_lines.simps Let_def line_info_def new_events_def
  needs_allocation_def raised_for_def both_allocated_def

subsection \<open>Orders that are not drafts\<close>

text \<open>
  C2. For every order that is not in \<open>DRAFT\<close> status, one already moved to \<open>UNFULFILLED\<close>
  included, completion fails with the invalid-state error of \<open>validate_order\<close> and returns the
  state it was given: no order row, address row or warehouse state has changed and no call
  has been made, so no stock is allocated and no completion event is emitted.
\<close>

theorem non_draft_order_is_rejected_unchanged:
  assumes "orders (db w) pk = Some ord" and "status ord \<noteq> DRAFT"
  shows "perform_mutation E C pk w =
           (Inl (ValidationError ''id''
                   [\<lparr>message = ''The order is not draft.'', code = INVALID,
                     error_variant = None\<rparr>]), w)"
  using assms by (simp add: perform_mutation_def validate_order_def is_draft_def)

text \<open>
  Order 2 of the shop is unfulfilled. So is order 3 once it has been completed: completing it a
  second time is rejected and leaves the state of the first completion as it is.
\<close>

theorem non_draft_order_is_rejected_unchanged_witness:
  "orders (db shop_world) 2 =
     Some ((draft_order ''ann@example.com'' (Some 72) [tracked 6 11 1])\<lparr>status := UNFULFILLED\<rparr>) \<and>
   status ((draft_order ''ann@example.com'' (Some 72) [tracked 6 11 1])\<lparr>status := UNFULFILLED\<rparr>)
     \<noteq> DRAFT \<and>
   perform_mutation shop_env shop_context 2 shop_world =
     (Inl (ValidationError ''id''
             [\<lparr>message = ''The order is not draft.'', code = INVALID, error_variant = None\<rparr>]),
      shop_world) \<and>
   perform_mutation shop_env shop_context 3 (snd (perform_mutation shop_env shop_context 3 shop_world)) =
     (Inl (ValidationError ''id''
             [\<lparr>message = ''The order is not draft.'', code = INVALID, error_variant = None\<rparr>]),
      snd (perform_mutation shop_env shop_context 3 shop_world))"
proof -
  let ?o2 = "(draft_order ''ann@example.com'' (Some 72) [tracked 6 11 1])\<lparr>status := UNFULFILLED\<rparr>"
  let ?w3 = "snd (perform_mutation shop_env shop_context 3 shop_world)"
  have a: "orders (db shop_world) 2 = Some ?o2"
    by (simp add: shop_world_def)
  have b: "status ?o2 \<noteq> DRAFT"
    by simp
  obtain o3 where c: "orders (db ?w3) 3 = Some o3" and d: "status o3 \<noteq> DRAFT"
    by (simp add: shop_defs)
  from non_draft_order_is_rejected_unchanged [OF a b, of shop_env shop_context]
    non_draft_order_is_rejected_unchanged [OF c d, of shop_env shop_context] a b
  show ?thesis by simp
qed

subsection \<open>Every line is one atomic unit\<close>

text \<open>
  C4. In the completion of a draft order that passes validation, the lines are split into
  those handled before the run ended and the rest. For every line of the first part that
  needs allocation both allocator calls ran to their end without raising, and the warehouse
  state the completion leaves is exactly the one these whole allocations produce, one line
  after the other. If the completion fails, the first line of the rest is the line for which
  an allocator raised \<open>InsufficientStock\<close>: nothing that was written for this line is in the
  state that is left, also when \<open>allocate_stocks\<close> had written before \<open>allocate_preorders\<close>
  raised. So each processed line is allocated in full or not at all.
\<close>

theorem completion_allocates_each_line_atomically:
  assumes "orders (db w) pk = Some ord" and "status ord = DRAFT"
    and "validate_draft_order E ord (get_order_country E ord) = None"
  shows "\<exists>pre post.
           lines ord = pre @ post \<and>
           first_shortage E C (get_order_country E ord) (slug (order_channel ord)) pre
             (stock (db w)) = None \<and>
           stock (db (snd (perform_mutation E C pk w))) =
             stock_after E C (get_order_country E ord) (slug (order_channel ord)) pre
               (stock (db w)) \<and>
           (case post of
              [] \<Rightarrow> \<not> isl (fst (perform_mutation E C pk w))
            | l # rest \<Rightarrow>
                needs_allocation l \<and> isl (fst (perform_mutation E C pk w)) \<and>
                raised_for E C (get_order_country E ord) (slug (order_channel ord)) (line_info l)
                  (stock_after E C (get_order_country E ord) (slug (order_channel ord)) pre
                     (stock (db w))) \<noteq> None)"
proof -
  obtain r w' where pm: "perform_mutation E C pk w = (r, w')"
    by fastforce
  show ?thesis
  proof (cases r)
    case (Inl err)
    from completion_Inl [OF assms pm [unfolded Inl]] obtain pre l post exc where
      f: "stock (db w') =
           stock_after E C (get_order_country E ord) (slug (order_channel ord)) pre (stock (db w))"
      "lines ord = pre @ l # post" "needs_allocation l"
      "first_shortage E C (get_order_country E ord) (slug (order_channel ord)) pre
           (stock (db w)) = None"
      "raised_for E C (get_order_country E ord) (slug (order_channel ord)) (line_info l)
           (stock_after E C (get_order_country E ord) (slug (order_channel ord)) pre
              (stock (db w))) = Some exc"
      by metis
    show ?thesis
      apply (rule exI [of _ pre], rule exI [of _ "l # post"])
      using f pm Inl by simp
  next
    case (Inr ord')
    from completion_Inr [OF assms pm [unfolded Inr]] have
      f: "stock (db w') =
           stock_after E C (get_order_country E ord) (slug (order_channel ord)) (lines ord)
             (stock (db w))"
      "first_shortage E C (get_order_country E ord) (slug (order_channel ord)) (lines ord)
           (stock (db w)) = None"
      by metis+
    show ?thesis
      apply (rule exI [of _ "lines ord"], rule exI [of _ "[]"])
      using f pm Inr by simp
  qed
qed

text \<open>
  Order 4 of the shop has one line, whose variant has both flags. Inside the line's
  transaction the stock allocator takes two units of variant 14, then the preorder allocator
  raises; the completion fails and leaves the stock of the shop as it was, the two units
  included. Order 3 is allocated: the two units of variant 15 stay taken.
\<close>

theorem completion_allocates_each_line_atomically_witness:
  "orders (db shop_world) 4 = Some (draft_order ''bob@example.com'' None [preorder_line]) \<and>
   status (draft_order ''bob@example.com'' None [preorder_line]) = DRAFT \<and>
   validate_draft_order shop_env (draft_order ''bob@example.com'' None [preorder_line])
     (get_order_country shop_env (draft_order ''bob@example.com'' None [preorder_line])) = None \<and>
   allocate_stocks shop_env [line_info preorder_line] ''US'' ''default'' False
     (stock (db shop_world)) =
     (None, \<lparr>free_stock = [(11, 3), (12, 1), (14, 8), (15, 10)], free_preorder = [(14, 1)]\<rparr>) \<and>
   raised_for shop_env shop_context ''US'' ''default'' (line_info preorder_line)
     (stock (db shop_world)) =
     Some (InsufficientStock [\<lparr>shortage_variant = 14, requested = 2, available = 1\<rparr>]) \<and>
   stock (db (snd (perform_mutation shop_env shop_context 4 shop_world))) =
     \<lparr>free_stock = [(11, 3), (12, 1), (14, 10), (15, 10)], free_preorder = [(14, 1)]\<rparr> \<and>
   stock (db (snd (perform_mutation shop_env shop_context 3 shop_world))) =
     \<lparr>free_stock = [(11, 3), (12, 1), (14, 10), (15, 8)], free_preorder = [(14, 1)]\<rparr> \<and>
   (\<exists>pre post.
      [preorder_line] = pre @ post \<and>
      first_shortage shop_env shop_context ''US'' ''default'' pre (stock (db shop_world)) = None \<and>
      stock (db (snd (perform_mutation shop_env shop_context 4 shop_world))) =
        stock_after shop_env shop_context ''US'' ''default'' pre (stock (db shop_world)) \<and>
      (case post of
         [] \<Rightarrow> \<not> isl (fst (perform_mutation shop_env shop_context 4 shop_world))
       | l # rest \<Rightarrow>
           needs_allocation l \<and> isl (fst (perform_mutation shop_env shop_context 4 shop_world)) \<and>
           raised_for shop_env shop_context ''US'' ''default'' (line_info l)
             (stock_after shop_env shop_context ''US'' ''default'' pre (stock (db shop_world)))
             \<noteq> None))"
proof -
  let ?o4 = "draft_order ''bob@example.com'' None [preorder_line]"
  have a: "orders (db shop_world) 4 = Some ?o4"
    by (simp add: shop_world_def)
  have b: "status ?o4 = DRAFT"
    by (simp add: draft_order_def)
  have c: "validate_draft_order shop_env ?o4 (get_order_country shop_env ?o4) = None"
    by (simp add: shop_env_def draft_order_def)
  have d: "get_order_country shop_env ?o4 = ''US''" "slug (order_channel ?o4) = ''default''"
    "lines ?o4 = [preorder_line]"
    by (simp_all add: shop_env_def draft_order_def)
  have e: "allocate_stocks shop_env [line_info preorder_line] ''US'' ''default'' False
     (stock (db shop_world)) =
     (None, \<lparr>free_stock = [(11, 3), (12, 1), (14, 8), (15, 10)], free_preorder = [(14, 1)]\<rparr>)"
    by (simp add: shop_defs)
  have f: "raised_for shop_env shop_context ''US'' ''default'' (line_info preorder_line)
     (stock (db shop_world)) =
     Some (InsufficientStock [\<lparr>shortage_variant = 14, requested = 2, available = 1\<rparr>])"
    by (simp add: shop_defs)
  have g: "stock (db (snd (perform_mutation shop_env shop_context 4 shop_world))) =
     \<lparr>free_stock = [(11, 3), (12, 1), (14, 10), (15, 10)], free_preorder = [(14, 1)]\<rparr>"
    by (simp add: shop_defs)
  have h: "stock (db (snd (perform_mutation shop_env shop_context 3 shop_world))) =
     \<lparr>free_stock = [(11, 3), (12, 1), (14, 10), (15, 8)], free_preorder = [(14, 1)]\<rparr>"
    by (simp add: shop_defs)
  note t = completion_allocates_each_line_atomically [OF a b c, of shop_context, unfolded d]
  from t a b c e f g h show ?thesis
    by blast
qed

subsection \<open>The order is saved before any allocation\<close>

text \<open>
  C6. For every draft order that passes validation, the order is saved with status
  \<open>UNFULFILLED\<close> before the first allocator call: the events of the run are some events that
  are not allocator calls, then the save of the unfulfilled order, then the rest, and the row
  saved is the one the database holds at the end.
\<close>

theorem order_saved_unfulfilled_before_allocation:
  assumes "orders (db w) pk = Some ord" and "status ord = DRAFT"
    and "validate_draft_order E ord (get_order_country E ord) = None"
  shows "\<exists>pre ord' post.
           new_events w (snd (perform_mutation E C pk w)) = pre @ OrderSaved pk ord' # post \<and>
           status ord' = UNFULFILLED \<and>
           filter is_allocation pre = [] \<and>
           orders (db (snd (perform_mutation E C pk w))) pk = Some ord'"
proof -
  obtain r w' where pm: "perform_mutation E C pk w = (r, w')"
    by fastforce
  show ?thesis
  proof (cases r)
    case (Inl err)
    from completion_Inl [OF assms pm [unfolded Inl]] obtain ord' evs where
      "status ord' = UNFULFILLED" "orders (db w') = (orders (db w))(pk \<mapsto> ord')"
      "new_events w w' =
         (case (if shipping_required ord then None else shipping_address ord) of
            None \<Rightarrow> [] | Some a \<Rightarrow> [AddressDeleted a]) @ OrderSaved pk ord' # evs"
      by metis
    then show ?thesis
      using pm
      by (intro exI [of _ "case (if shipping_required ord then None else shipping_address ord) of
            None \<Rightarrow> [] | Some a \<Rightarrow> [AddressDeleted a]"] exI [of _ ord'] exI [of _ evs]) simp
  next
    case (Inr ord')
    from completion_Inr [OF assms pm [unfolded Inr]] obtain evs where
      f: "status ord' = UNFULFILLED" "orders (db w') = (orders (db w))(pk \<mapsto> ord')"
      "new_events w w' =
         (case (if shipping_required ord then None else shipping_address ord) of
            None \<Rightarrow> [] | Some a \<Rightarrow> [AddressDeleted a]) @ OrderSaved pk ord' # evs @
           [OrderCreated
              \<lparr>oi_order = ord', customer_email = get_customer_email E ord',
               oi_channel = order_channel ord, oi_payment = get_last_payment E ord',
               lines_data = map line_info (filter needs_allocation (lines ord))\<rparr>
              (ctx_user C) (ctx_app C) True]"
      by metis
    then show ?thesis
      using pm
      by (intro exI [of _ "case (if shipping_required ord then None else shipping_address ord) of
            None \<Rightarrow> [] | Some a \<Rightarrow> [AddressDeleted a]"] exI [of _ ord']
            exI [of _ "evs @ [OrderCreated
              \<lparr>oi_order = ord', customer_email = get_customer_email E ord',
               oi_channel = order_channel ord, oi_payment = get_last_payment E ord',
               lines_data = map line_info (filter needs_allocation (lines ord))\<rparr>
              (ctx_user C) (ctx_app C) True]"]) simp
  qed
qed

text \<open>Order 3 of the shop: the address is deleted, the order is saved, then the line is allocated.\<close>

theorem order_saved_unfulfilled_before_allocation_witness:
  "orders (db shop_world) 3 =
     Some (draft_order ''bob@example.com'' (Some 73) [tracked 5 15 2, gift_card_line]) \<and>
   status (draft_order ''bob@example.com'' (Some 73) [tracked 5 15 2, gift_card_line]) = DRAFT \<and>
   validate_draft_order shop_env
     (draft_order ''bob@example.com'' (Some 73) [tracked 5 15 2, gift_card_line])
     (get_order_country shop_env
        (draft_order ''bob@example.com'' (Some 73) [tracked 5 15 2, gift_card_line])) = None \<and>
   (\<exists>pre ord' post.
      new_events shop_world (snd (perform_mutation shop_env shop_context 3 shop_world)) =
        pre @ OrderSaved 3 ord' # post \<and>
      status ord' = UNFULFILLED \<and> filter is_allocation pre = [] \<and>
      orders (db (snd (perform_mutation shop_env shop_context 3 shop_world))) 3 = Some ord') \<and>
   map is_allocation
     (new_events shop_world (snd (perform_mutation shop_env shop_context 3 shop_world))) =
     [False, False, True, True, False]"
proof -
  let ?o3 = "draft_order ''bob@example.com'' (Some 73) [tracked 5 15 2, gift_card_line]"
  have a: "orders (db shop_world) 3 = Some ?o3"
    by (simp add: shop_world_def)
  have b: "status ?o3 = DRAFT"
    by (simp add: draft_order_def)
  have c: "validate_draft_order shop_env ?o3 (get_order_country shop_env ?o3) = None"
    by (simp add: shop_env_def draft_order_def)
  have d: "map is_allocation
     (new_events shop_world (snd (perform_mutation shop_env shop_context 3 shop_world))) =
     [False, False, True, True, False]"
    by (simp add: shop_defs)
  from order_saved_unfulfilled_before_allocation [OF a b c, of shop_context] a b c d
  show ?thesis by blast
qed

subsection \<open>Lines that need no allocation\<close>

text \<open>
  C8. A line whose variant neither tracks inventory nor is preorder-active is skipped: in no
  run of the mutation is it handed to \<open>allocate_stocks\<close> or to \<open>allocate_preorders\<close>, and it
  is not among the lines carried by a completion event.
\<close>

theorem unflagged_line_is_skipped:
  assumes "\<not> track_inventory (variant l)" and "\<not> is_preorder_active (variant l)"
  shows "l \<notin> set (stock_attempts (new_events w (snd (perform_mutation E C pk w)))) \<and>
         l \<notin> set (preorder_attempts (new_events w (snd (perform_mutation E C pk w)))) \<and>
         l \<notin> set (completion_lines (new_events w (snd (perform_mutation E C pk w))))"
proof -
  from assms have no: "\<not> needs_allocation l"
    by (simp add: needs_allocation_def)
  show ?thesis
  proof (cases rule: perform_mutation_cases [of E C pk w])
    case (rejected err)
    then show ?thesis by simp
  next
    case (draft ord)
    obtain r w' where pm: "perform_mutation E C pk w = (r, w')"
      by fastforce
    show ?thesis
    proof (cases r)
      case (Inl err)
      from completion_Inl [OF draft pm [unfolded Inl]] obtain ord' pre l' post evs where
        f: "lines ord = pre @ l' # post" "needs_allocation l'"
        "new_events w w' =
           (case (if shipping_required ord then None else shipping_address ord) of
              None \<Rightarrow> [] | Some a \<Rightarrow> [AddressDeleted a]) @ OrderSaved pk ord' # evs"
        "filter is_allocation evs = evs"
        "stock_attempts evs = filter needs_allocation pre @ [l']"
        "preorder_attempts evs = filter needs_allocation pre \<or>
         preorder_attempts evs = filter needs_allocation pre @ [l']"
        by metis
      from f(2) no have "l \<noteq> l'" by blast
      with f(3-6) no allocation_events_only(2) [OF f(4)] pm show ?thesis
        by auto
    next
      case (Inr ord')
      from completion_Inr [OF draft pm [unfolded Inr]] obtain evs where
        f: "new_events w w' =
           (case (if shipping_required ord then None else shipping_address ord) of
              None \<Rightarrow> [] | Some a \<Rightarrow> [AddressDeleted a]) @ OrderSaved pk ord' # evs @
           [OrderCreated
              \<lparr>oi_order = ord', customer_email = get_customer_email E ord',
               oi_channel = order_channel ord, oi_payment = get_last_payment E ord',
               lines_data = map line_info (filter needs_allocation (lines ord))\<rparr>
              (ctx_user C) (ctx_app C) True]"
        "filter is_allocation evs = evs"
        "stock_attempts evs = filter needs_allocation (lines ord)"
        "preorder_attempts evs = filter needs_allocation (lines ord)"
        by metis
      with no allocation_events_only(2) [OF f(2)] pm show ?thesis
        by (auto simp: comp_def)
    qed
  qed
qed

text \<open>
  Order 3 of the shop has a tracked line and a gift card whose variant has neither flag; only
  the tracked line reaches the allocators and the completion event.
\<close>

theorem unflagged_line_is_skipped_witness:
  "\<not> track_inventory (variant gift_card_line) \<and> \<not> is_preorder_active (variant gift_card_line) \<and>
   orders (db shop_world) 3 =
     Some (draft_order ''bob@example.com'' (Some 73) [tracked 5 15 2, gift_card_line]) \<and>
   stock_attempts (new_events shop_world (snd (perform_mutation shop_env shop_context 3 shop_world)))
     = [tracked 5 15 2] \<and>
   completion_lines (new_events shop_world (snd (perform_mutation shop_env shop_context 3 shop_world)))
     = [tracked 5 15 2] \<and>
   gift_card_line \<notin>
     set (stock_attempts (new_events shop_world (snd (perform_mutation shop_env shop_context 3 shop_world)))) \<and>
   gift_card_line \<notin>
     set (preorder_attempts (new_events shop_world (snd (perform_mutation shop_env shop_context 3 shop_world)))) \<and>
   gift_card_line \<notin>
     set (completion_lines (new_events shop_world (snd (perform_mutation shop_env shop_context 3 shop_world))))"
proof -
  have a: "\<not> track_inventory (variant gift_card_line)"
    by (simp add: gift_card_line_def)
  have b: "\<not> is_preorder_active (variant gift_card_line)"
    by (simp add: gift_card_line_def is_preorder_active_def)
  have c: "orders (db shop_world) 3 =
     Some (draft_order ''bob@example.com'' (Some 73) [tracked 5 15 2, gift_card_line])"
    by (simp add: shop_world_def)
  have d: "stock_attempts (new_events shop_world (snd (perform_mutation shop_env shop_context 3 shop_world)))
     = [tracked 5 15 2]"
    by (simp add: shop_defs)
  have e: "completion_lines (new_events shop_world (snd (perform_mutation shop_env shop_context 3 shop_world)))
     = [tracked 5 15 2]"
    by (simp add: shop_defs)
  from unflagged_line_is_skipped [OF a b, of shop_world shop_env shop_context 3] a b c d e
  show ?thesis by blast
qed

subsection \<open>A shortage ends the completion\<close>

text \<open>
  C3. When the allocation of a line of a draft order fails with \<open>InsufficientStock\<close>, the
  order stays saved with status \<open>UNFULFILLED\<close> and with its shipping fields normalized (the
  address row stays deleted), the warehouse holds the allocations of the lines before the
  failing one, and the allocators have been called for the lines up to the failing one only:
  no line after it is attempted.
\<close>

theorem shortage_keeps_saved_order_and_stops:
  assumes "orders (db w) pk = Some ord" and "status ord = DRAFT"
    and "validate_draft_order E ord (get_order_country E ord) = None"
    and "fst (perform_mutation E C pk w) = Inl err"
  shows "\<exists>ord' pre l post.
           orders (db (snd (perform_mutation E C pk w))) pk = Some ord' \<and>
           status ord' = UNFULFILLED \<and>
           (is_shipping_required ord \<or>
              shipping_method_name ord' = None \<and>
              shipping_price ord' = zero_taxed_money (currency ord) \<and>
              shipping_address ord' = None \<and>
              addresses (db (snd (perform_mutation E C pk w))) =
                addresses (db w) - set_option (shipping_address ord)) \<and>
           lines ord = pre @ l # post \<and> needs_allocation l \<and>
           stock_attempts (new_events w (snd (perform_mutation E C pk w))) =
             filter needs_allocation pre @ [l] \<and>
           (preorder_attempts (new_events w (snd (perform_mutation E C pk w))) =
              filter needs_allocation pre \<or>
            preorder_attempts (new_events w (snd (perform_mutation E C pk w))) =
              filter needs_allocation pre @ [l]) \<and>
           stock (db (snd (perform_mutation E C pk w))) =
             stock_after E C (get_order_country E ord) (slug (order_channel ord)) pre (stock (db w))"
proof -
  obtain w' where pm: "perform_mutation E C pk w = (Inl err, w')"
    using assms(4) by (cases "perform_mutation E C pk w") auto
  from completion_Inl [OF assms(1-3) pm] obtain ord' pre l post evs where
    f: "status ord' = UNFULFILLED"
    "\<not> shipping_required ord \<Longrightarrow>
           shipping_method_name ord' = None \<and>
           shipping_price ord' = zero_taxed_money (currency ord) \<and>
           shipping_address ord' = None"
    "orders (db w') = (orders (db w))(pk \<mapsto> ord')"
    "addresses (db w') =
           addresses (db w) - set_option (if shipping_required ord then None else shipping_address ord)"
    "stock (db w') =
           stock_after E C (get_order_country E ord) (slug (order_channel ord)) pre (stock (db w))"
    "lines ord = pre @ l # post" "needs_allocation l"
    "new_events w w' =
           (case (if shipping_required ord then None else shipping_address ord) of
              None \<Rightarrow> [] | Some a \<Rightarrow> [AddressDeleted a]) @ OrderSaved pk ord' # evs"
    "stock_attempts evs = filter needs_allocation pre @ [l]"
    "preorder_attempts evs = filter needs_allocation pre \<or>
         preorder_attempts evs = filter needs_allocation pre @ [l]"
    by metis
  show ?thesis
    apply (rule exI [of _ ord'], rule exI [of _ pre], rule exI [of _ l], rule exI [of _ post])
    using f pm by (auto simp: is_shipping_required_def)
qed

text \<open>
  Order 1 of the shop asks for five units of variant 11, of which three are free. The
  completion fails on this first line; the order is left unfulfilled in the database, its
  address row 71 is gone, and the second line has not reached an allocator.
\<close>

theorem shortage_keeps_saved_order_and_stops_witness:
  "orders (db shop_world) 1 =
     Some (draft_order ''ann@example.com'' (Some 71) [tracked 1 11 5, tracked 2 12 4]) \<and>
   status (draft_order ''ann@example.com'' (Some 71) [tracked 1 11 5, tracked 2 12 4]) = DRAFT \<and>
   validate_draft_order shop_env
     (draft_order ''ann@example.com'' (Some 71) [tracked 1 11 5, tracked 2 12 4])
     (get_order_country shop_env
        (draft_order ''ann@example.com'' (Some 71) [tracked 1 11 5, tracked 2 12 4])) = None \<and>
   fst (perform_mutation shop_env shop_context 1 shop_world) =
     Inl (ValidationError ''lines''
            [\<lparr>message = ''Insufficient product stock'', code = OTHER_CODE ''insufficient_stock'',
              error_variant = Some 11\<rparr>]) \<and>
   map_option status (orders (db (snd (perform_mutation shop_env shop_context 1 shop_world))) 1) =
     Some UNFULFILLED \<and>
   addresses (db (snd (perform_mutation shop_env shop_context 1 shop_world))) = {72, 73, 75, 76} \<and>
   stock_attempts (new_events shop_world (snd (perform_mutation shop_env shop_context 1 shop_world))) =
     [tracked 1 11 5] \<and>
   (\<exists>ord' pre l post.
      orders (db (snd (perform_mutation shop_env shop_context 1 shop_world))) 1 = Some ord' \<and>
      status ord' = UNFULFILLED \<and>
      lines (draft_order ''ann@example.com'' (Some 71) [tracked 1 11 5, tracked 2 12 4]) =
        pre @ l # post \<and>
      stock_attempts (new_events shop_world (snd (perform_mutation shop_env shop_context 1 shop_world))) =
        filter needs_allocation pre @ [l])"
proof -
  let ?o1 = "draft_order ''ann@example.com'' (Some 71) [tracked 1 11 5, tracked 2 12 4]"
  have a: "orders (db shop_world) 1 = Some ?o1"
    by (simp add: shop_world_def)
  have b: "status ?o1 = DRAFT"
    by (simp add: draft_order_def)
  have c: "validate_draft_order shop_env ?o1 (get_order_country shop_env ?o1) = None"
    by (simp add: shop_env_def draft_order_def)
  have d: "fst (perform_mutation shop_env shop_context 1 shop_world) =
     Inl (ValidationError ''lines''
            [\<lparr>message = ''Insufficient product stock'', code = OTHER_CODE ''insufficient_stock'',
              error_variant = Some 11\<rparr>])"
    by (simp add: shop_defs)
  have e: "map_option status (orders (db (snd (perform_mutation shop_env shop_context 1 shop_world))) 1) =
     Some UNFULFILLED"
    by (simp add: shop_defs)
  have f: "addresses (db (snd (perform_mutation shop_env shop_context 1 shop_world))) = {72, 73, 75, 76}"
    by (simp add: shop_defs)
  have g: "stock_attempts (new_events shop_world (snd (perform_mutation shop_env shop_context 1 shop_world))) =
     [tracked 1 11 5]"
    by (simp add: shop_defs)
  from shortage_keeps_saved_order_and_stops [OF a b c d] a b c d e f g
  show ?thesis by blast
qed

subsection \<open>Which shortages are reported\<close>

text \<open>
  C1 as stated fails. Both lines of order 1 of the shop lack stock: each, allocated on its own
  from the stock the shop has, raises \<open>InsufficientStock\<close>. The completion reports the
  shortage of variant 11 alone.
\<close>

theorem all_shortages_reported_counterexample:
  "orders (db shop_world) 1 =
     Some (draft_order ''ann@example.com'' (Some 71) [tracked 1 11 5, tracked 2 12 4]) \<and>
   raised_for shop_env shop_context ''US'' ''default'' (line_info (tracked 1 11 5))
     (stock (db shop_world)) =
     Some (InsufficientStock [\<lparr>shortage_variant = 11, requested = 5, available = 3\<rparr>]) \<and>
   raised_for shop_env shop_context ''US'' ''default'' (line_info (tracked 2 12 4))
     (stock (db shop_world)) =
     Some (InsufficientStock [\<lparr>shortage_variant = 12, requested = 4, available = 1\<rparr>]) \<and>
   fst (perform_mutation shop_env shop_context 1 shop_world) =
     Inl (ValidationError ''lines''
            [\<lparr>message = ''Insufficient product stock'', code = OTHER_CODE ''insufficient_stock'',
              error_variant = Some 11\<rparr>]) \<and>
   fst (perform_mutation shop_env shop_context 1 shop_world) \<noteq>
     Inl (ValidationError ''lines''
            [\<lparr>message = ''Insufficient product stock'', code = OTHER_CODE ''insufficient_stock'',
              error_variant = Some 11\<rparr>,
             \<lparr>message = ''Insufficient product stock'', code = OTHER_CODE ''insufficient_stock'',
              error_variant = Some 12\<rparr>])"
  by (simp add: shop_defs)

text \<open>
  C1, amended. A completion that fails with \<open>InsufficientStock\<close> fails at the first line, in
  the order of the lines, for which the allocators raise, the lines before it having been
  allocated; the error returned is built from the exception raised for that one line and
  from nothing else.
\<close>

theorem completion_reports_first_shortage_only:
  assumes "orders (db w) pk = Some ord" and "status ord = DRAFT"
    and "validate_draft_order E ord (get_order_country E ord) = None"
    and "fst (perform_mutation E C pk w) = Inl err"
  shows "\<exists>pre l post exc.
           lines ord = pre @ l # post \<and> needs_allocation l \<and>
           first_shortage E C (get_order_country E ord) (slug (order_channel ord)) pre
             (stock (db w)) = None \<and>
           raised_for E C (get_order_country E ord) (slug (order_channel ord)) (line_info l)
             (stock_after E C (get_order_country E ord) (slug (order_channel ord)) pre
                (stock (db w))) = Some exc \<and>
           err = ValidationError ''lines'' (prepare_insufficient_stock_order_validation_errors E exc)"
proof -
  obtain w' where pm: "perform_mutation E C pk w = (Inl err, w')"
    using assms(4) by (cases "perform_mutation E C pk w") auto
  from completion_Inl [OF assms(1-3) pm] show ?thesis
    by metis
qed

theorem completion_reports_first_shortage_only_witness:
  "orders (db shop_world) 1 =
     Some (draft_order ''ann@example.com'' (Some 71) [tracked 1 11 5, tracked 2 12 4]) \<and>
   status (draft_order ''ann@example.com'' (Some 71) [tracked 1 11 5, tracked 2 12 4]) = DRAFT \<and>
   validate_draft_order shop_env
     (draft_order ''ann@example.com'' (Some 71) [tracked 1 11 5, tracked 2 12 4])
     (get_order_country shop_env
        (draft_order ''ann@example.com'' (Some 71) [tracked 1 11 5, tracked 2 12 4])) = None \<and>
   fst (perform_mutation shop_env shop_context 1 shop_world) =
     Inl (ValidationError ''lines''
            [\<lparr>message = ''Insufficient product stock'', code = OTHER_CODE ''insufficient_stock'',
              error_variant = Some 11\<rparr>]) \<and>
   (\<exists>pre l post exc.
      lines (draft_order ''ann@example.com'' (Some 71) [tracked 1 11 5, tracked 2 12 4]) =
        pre @ l # post \<and> needs_allocation l \<and>
      ValidationError ''lines''
            [\<lparr>message = ''Insufficient product stock'', code = OTHER_CODE ''insufficient_stock'',
              error_variant = Some 11\<rparr>] =
        ValidationError ''lines'' (prepare_insufficient_stock_order_validation_errors shop_env exc))"
proof -
  let ?o1 = "draft_order ''ann@example.com'' (Some 71) [tracked 1 11 5, tracked 2 12 4]"
  have a: "orders (db shop_world) 1 = Some ?o1"
    by (simp add: shop_world_def)
  have b: "status ?o1 = DRAFT"
    by (simp add: draft_order_def)
  have c: "validate_draft_order shop_env ?o1 (get_order_country shop_env ?o1) = None"
    by (simp add: shop_env_def draft_order_def)
  have d: "fst (perform_mutation shop_env shop_context 1 shop_world) =
     Inl (ValidationError ''lines''
            [\<lparr>message = ''Insufficient product stock'', code = OTHER_CODE ''insufficient_stock'',
              error_variant = Some 11\<rparr>])"
    by (simp add: shop_defs)
  from completion_reports_first_shortage_only [OF a b c d] a b c d
  show ?thesis by blast
qed

subsection \<open>One allocation path for every line\<close>

lemma with_routing_fields [simp]:
  "allocate_stocks (with_routing E) = routed_allocate_stocks (allocate_stocks E)"
  "allocate_preorders (with_routing E) = routed_allocate_preorders (allocate_preorders E)"
  "get_order_country (with_routing E) = get_order_country E"
  "validate_draft_order (with_routing E) = validate_draft_order E"
  "prepare_insufficient_stock_order_validation_errors (with_routing E) =
     prepare_insufficient_stock_order_validation_errors E"
  by (simp_all add: with_routing_def)

lemma li_variant_line_info [simp]: "li_variant (line_info l) = variant l"
  by (simp add: line_info_def)










subsection \<open>Shipping fields\<close>

text \<open>
  C7 as stated fails. Order 5 of the shop is a draft that requires no shipping and has a
  shipping method name and an address; \<open>validate_draft_order\<close> rejects it (it has no lines),
  and the completion returns before line 77: the row, its shipping method name and the
  address row are what they were.
\<close>

theorem shipping_cleared_for_every_draft_counterexample:
  "orders (db shop_world) 5 = Some (draft_order ''bob@example.com'' (Some 75) []) \<and>
   status (draft_order ''bob@example.com'' (Some 75) []) = DRAFT \<and>
   \<not> is_shipping_required (draft_order ''bob@example.com'' (Some 75) []) \<and>
   orders (db (snd (perform_mutation shop_env shop_context 5 shop_world))) 5 =
     Some (draft_order ''bob@example.com'' (Some 75) []) \<and>
   shipping_method_name (draft_order ''bob@example.com'' (Some 75) []) = Some ''DHL'' \<and>
   shipping_address (draft_order ''bob@example.com'' (Some 75) []) = Some 75 \<and>
   75 \<in> addresses (db (snd (perform_mutation shop_env shop_context 5 shop_world)))"
  by (simp add: shop_defs)

text \<open>
  C7, amended. For every draft order that passes \<open>validate_draft_order\<close>: if the order
  requires no shipping, the order saved by the completion has no shipping method name, the
  zero taxed amount in the order's currency as shipping price and no shipping address, and
  the address row the order had, if any, is deleted; if the order requires shipping, the
  three fields and the address rows are unchanged. This holds whether or not the allocation
  that follows succeeds, and the order returned on success is the saved one.
\<close>

theorem shipping_normalized_on_completion:
  assumes "orders (db w) pk = Some ord" and "status ord = DRAFT"
    and "validate_draft_order E ord (get_order_country E ord) = None"
  shows "\<exists>ord'.
           orders (db (snd (perform_mutation E C pk w))) pk = Some ord' \<and>
           (case fst (perform_mutation E C pk w) of Inl err \<Rightarrow> True | Inr ord'' \<Rightarrow> ord'' = ord') \<and>
           (if is_shipping_required ord then
              shipping_method_name ord' = shipping_method_name ord \<and>
              shipping_price ord' = shipping_price ord \<and>
              shipping_address ord' = shipping_address ord \<and>
              addresses (db (snd (perform_mutation E C pk w))) = addresses (db w)
            else
              shipping_method_name ord' = None \<and>
              shipping_price ord' = zero_taxed_money (currency ord) \<and>
              shipping_address ord' = None \<and>
              addresses (db (snd (perform_mutation E C pk w))) =
                addresses (db w) - set_option (shipping_address ord))"
proof -
  obtain r w' where pm: "perform_mutation E C pk w = (r, w')"
    by fastforce
  show ?thesis
  proof (cases r)
    case (Inl err)
    from completion_Inl [OF assms pm [unfolded Inl]] obtain ord' where
      "shipping_required ord \<Longrightarrow>
           shipping_method_name ord' = shipping_method_name ord \<and>
           shipping_price ord' = shipping_price ord \<and>
           shipping_address ord' = shipping_address ord"
      "\<not> shipping_required ord \<Longrightarrow>
           shipping_method_name ord' = None \<and>
           shipping_price ord' = zero_taxed_money (currency ord) \<and>
           shipping_address ord' = None"
      "orders (db w') = (orders (db w))(pk \<mapsto> ord')"
      "addresses (db w') =
           addresses (db w) - set_option (if shipping_required ord then None else shipping_address ord)"
      by metis
    with pm Inl show ?thesis
      by (intro exI [of _ ord']) (simp add: is_shipping_required_def)
  next
    case (Inr ord')
    from completion_Inr [OF assms pm [unfolded Inr]] have
      "shipping_required ord \<Longrightarrow>
           shipping_method_name ord' = shipping_method_name ord \<and>
           shipping_price ord' = shipping_price ord \<and>
           shipping_address ord' = shipping_address ord"
      "\<not> shipping_required ord \<Longrightarrow>
           shipping_method_name ord' = None \<and>
           shipping_price ord' = zero_taxed_money (currency ord) \<and>
           shipping_address ord' = None"
      "orders (db w') = (orders (db w))(pk \<mapsto> ord')"
      "addresses (db w') =
           addresses (db w) - set_option (if shipping_required ord then None else shipping_address ord)"
      by metis+
    with pm Inr show ?thesis
      by (intro exI [of _ ord']) (simp add: is_shipping_required_def)
  qed
qed

text \<open>
  Order 3 of the shop requires no shipping and loses its method name, price and address 73;
  order 6 requires shipping and keeps them.
\<close>

theorem shipping_normalized_on_completion_witness:
  "orders (db shop_world) 3 =
     Some (draft_order ''bob@example.com'' (Some 73) [tracked 5 15 2, gift_card_line]) \<and>
   status (draft_order ''bob@example.com'' (Some 73) [tracked 5 15 2, gift_card_line]) = DRAFT \<and>
   validate_draft_order shop_env
     (draft_order ''bob@example.com'' (Some 73) [tracked 5 15 2, gift_card_line])
     (get_order_country shop_env
        (draft_order ''bob@example.com'' (Some 73) [tracked 5 15 2, gift_card_line])) = None \<and>
   \<not> is_shipping_required (draft_order ''bob@example.com'' (Some 73) [tracked 5 15 2, gift_card_line]) \<and>
   (\<exists>ord'. orders (db (snd (perform_mutation shop_env shop_context 3 shop_world))) 3 = Some ord' \<and>
      shipping_method_name ord' = None \<and> shipping_price ord' = zero_taxed_money ''USD'' \<and>
      shipping_address ord' = None) \<and>
   addresses (db (snd (perform_mutation shop_env shop_context 3 shop_world))) = {71, 72, 75, 76} \<and>
   orders (db shop_world) 6 =
     Some ((draft_order ''old@example.com'' (Some 76) [tracked 7 15 1])
             \<lparr>shipping_required := True,
              user := Some \<lparr>user_pk = 2, email = ''cy@example.com''\<rparr>\<rparr>) \<and>
   is_shipping_required
     ((draft_order ''old@example.com'' (Some 76) [tracked 7 15 1])
        \<lparr>shipping_required := True,
         user := Some \<lparr>user_pk = 2, email = ''cy@example.com''\<rparr>\<rparr>) \<and>
   (\<exists>ord'. orders (db (snd (perform_mutation shop_env shop_context 6 shop_world))) 6 = Some ord' \<and>
      shipping_method_name ord' = Some ''DHL'' \<and> shipping_address ord' = Some 76) \<and>
   addresses (db (snd (perform_mutation shop_env shop_context 6 shop_world))) = {71, 72, 73, 75, 76}"
proof -
  let ?o3 = "draft_order ''bob@example.com'' (Some 73) [tracked 5 15 2, gift_card_line]"
  let ?o6 = "(draft_order ''old@example.com'' (Some 76) [tracked 7 15 1])
               \<lparr>shipping_required := True,
                user := Some \<lparr>user_pk = 2, email = ''cy@example.com''\<rparr>\<rparr>"
  have a: "orders (db shop_world) 3 = Some ?o3"
    by (simp add: shop_world_def)
  have b: "status ?o3 = DRAFT"
    by (simp add: draft_order_def)
  have c: "validate_draft_order shop_env ?o3 (get_order_country shop_env ?o3) = None"
    by (simp add: shop_env_def draft_order_def)
  have d: "\<not> is_shipping_required ?o3" "currency ?o3 = ''USD''" "shipping_address ?o3 = Some 73"
    by (simp_all add: draft_order_def is_shipping_required_def)
  have a6: "orders (db shop_world) 6 = Some ?o6"
    by (simp add: shop_world_def)
  have b6: "status ?o6 = DRAFT"
    by (simp add: draft_order_def)
  have c6: "validate_draft_order shop_env ?o6 (get_order_country shop_env ?o6) = None"
    by (simp add: shop_env_def draft_order_def)
  have d6: "is_shipping_required ?o6" "shipping_method_name ?o6 = Some ''DHL''"
    "shipping_address ?o6 = Some 76"
    by (simp_all add: draft_order_def is_shipping_required_def)
  have e: "addresses (db shop_world) = {71, 72, 73, 75, 76}"
    by (simp add: shop_world_def)
  have f: "{71, 72, 73, 75, 76} - {73} = {71, 72, 75, 76 :: nat}"
    by auto
  from shipping_normalized_on_completion [OF a b c, of shop_context]
    shipping_normalized_on_completion [OF a6 b6 c6, of shop_context]
    a b c d a6 d6 e f
  show ?thesis by auto
qed

subsection \<open>The completion event\<close>

text \<open>
  C9 as stated fails. Order 5 of the shop is a draft without lines: no line's allocation
  fails and no shortage is raised, yet no completion event is emitted, because
  \<open>validate_draft_order\<close> rejects the order first.
\<close>

theorem event_for_every_draft_without_shortage_counterexample:
  "orders (db shop_world) 5 = Some (draft_order ''bob@example.com'' (Some 75) []) \<and>
   status (draft_order ''bob@example.com'' (Some 75) []) = DRAFT \<and>
   first_shortage shop_env shop_context ''US'' ''default''
     (lines (draft_order ''bob@example.com'' (Some 75) [])) (stock (db shop_world)) = None \<and>
   fst (perform_mutation shop_env shop_context 5 shop_world) =
     Inl (ValidationError ''lines''
            [\<lparr>message = ''Could not create order without any products.'',
              code = OTHER_CODE ''required'', error_variant = None\<rparr>]) \<and>
   filter is_order_created
     (new_events shop_world (snd (perform_mutation shop_env shop_context 5 shop_world))) = []"
  by (simp add: shop_defs)

text \<open>
  C9, amended. For every draft order that passes \<open>validate_draft_order\<close>, the completion
  event is emitted if and only if no line's allocation raises a shortage. When none does, the
  run returns the saved, unfulfilled order and emits exactly one event, which carries that
  order, the order's channel, the customer e-mail and last payment read from that order, and
  the lines that needed allocation, all of which have been passed to both allocators. When a
  line raises, the run fails with the error built from that shortage and emits no event.
\<close>

theorem completion_event_iff_no_shortage:
  assumes "orders (db w) pk = Some ord" and "status ord = DRAFT"
    and "validate_draft_order E ord (get_order_country E ord) = None"
  shows "case first_shortage E C (get_order_country E ord) (slug (order_channel ord)) (lines ord)
                (stock (db w)) of
           None \<Rightarrow>
             (\<exists>ord'. fst (perform_mutation E C pk w) = Inr ord' \<and>
                status ord' = UNFULFILLED \<and>
                orders (db (snd (perform_mutation E C pk w))) pk = Some ord' \<and>
                filter is_order_created (new_events w (snd (perform_mutation E C pk w))) =
                  [OrderCreated
                     \<lparr>oi_order = ord', customer_email = get_customer_email E ord',
                      oi_channel = order_channel ord, oi_payment = get_last_payment E ord',
                      lines_data = map line_info (filter needs_allocation (lines ord))\<rparr>
                     (ctx_user C) (ctx_app C) True] \<and>
                stock_attempts (new_events w (snd (perform_mutation E C pk w))) =
                  filter needs_allocation (lines ord) \<and>
                preorder_attempts (new_events w (snd (perform_mutation E C pk w))) =
                  filter needs_allocation (lines ord))
         | Some exc \<Rightarrow>
             fst (perform_mutation E C pk w) =
               Inl (ValidationError ''lines''
                      (prepare_insufficient_stock_order_validation_errors E exc)) \<and>
             filter is_order_created (new_events w (snd (perform_mutation E C pk w))) = []"
proof -
  obtain r w' where pm: "perform_mutation E C pk w = (r, w')"
    by fastforce
  show ?thesis
  proof (cases r)
    case (Inl err)
    from completion_Inl [OF assms pm [unfolded Inl]] obtain ord' exc evs where
      f: "first_shortage E C (get_order_country E ord) (slug (order_channel ord)) (lines ord)
           (stock (db w)) = Some exc"
      "err = ValidationError ''lines'' (prepare_insufficient_stock_order_validation_errors E exc)"
      "new_events w w' =
           (case (if shipping_required ord then None else shipping_address ord) of
              None \<Rightarrow> [] | Some a \<Rightarrow> [AddressDeleted a]) @ OrderSaved pk ord' # evs"
      "filter is_allocation evs = evs"
      by metis
    with pm Inl allocation_events_only(1) [OF f(4)] show ?thesis
      by simp
  next
    case (Inr ord')
    from completion_Inr [OF assms pm [unfolded Inr]] obtain evs where
      f: "status ord' = UNFULFILLED"
      "orders (db w') = (orders (db w))(pk \<mapsto> ord')"
      "first_shortage E C (get_order_country E ord) (slug (order_channel ord)) (lines ord)
           (stock (db w)) = None"
      "new_events w w' =
           (case (if shipping_required ord then None else shipping_address ord) of
              None \<Rightarrow> [] | Some a \<Rightarrow> [AddressDeleted a]) @ OrderSaved pk ord' # evs @
           [OrderCreated
              \<lparr>oi_order = ord', customer_email = get_customer_email E ord',
               oi_channel = order_channel ord, oi_payment = get_last_payment E ord',
               lines_data = map line_info (filter needs_allocation (lines ord))\<rparr>
              (ctx_user C) (ctx_app C) True]"
      "filter is_allocation evs = evs"
      "stock_attempts evs = filter needs_allocation (lines ord)"
      "preorder_attempts evs = filter needs_allocation (lines ord)"
      by metis
    with pm Inr allocation_events_only(1) [OF f(5)] show ?thesis
      by simp
  qed
qed

text \<open>
  Order 3 of the shop is allocated and its event carries the tracked line, the channel and
  payment 900; order 1 raises a shortage and no event is emitted.
\<close>

theorem completion_event_iff_no_shortage_witness:
  "orders (db shop_world) 3 =
     Some (draft_order ''bob@example.com'' (Some 73) [tracked 5 15 2, gift_card_line]) \<and>
   status (draft_order ''bob@example.com'' (Some 73) [tracked 5 15 2, gift_card_line]) = DRAFT \<and>
   validate_draft_order shop_env
     (draft_order ''bob@example.com'' (Some 73) [tracked 5 15 2, gift_card_line])
     (get_order_country shop_env
        (draft_order ''bob@example.com'' (Some 73) [tracked 5 15 2, gift_card_line])) = None \<and>
   first_shortage shop_env shop_context ''US'' ''default'' [tracked 5 15 2, gift_card_line]
     (stock (db shop_world)) = None \<and>
   (\<exists>ord'. fst (perform_mutation shop_env shop_context 3 shop_world) = Inr ord' \<and>
      status ord' = UNFULFILLED \<and>
      filter is_order_created
        (new_events shop_world (snd (perform_mutation shop_env shop_context 3 shop_world))) =
        [OrderCreated
           \<lparr>oi_order = ord', customer_email = ''bob@example.com'',
            oi_channel = \<lparr>channel_pk = 1, slug = ''default''\<rparr>, oi_payment = Some 900,
            lines_data = [line_info (tracked 5 15 2)]\<rparr>
           (Some \<lparr>user_pk = 50, email = ''staff@example.com''\<rparr>) None True]) \<and>
   first_shortage shop_env shop_context ''US'' ''default'' [tracked 1 11 5, tracked 2 12 4]
     (stock (db shop_world)) =
     Some (InsufficientStock [\<lparr>shortage_variant = 11, requested = 5, available = 3\<rparr>]) \<and>
   filter is_order_created
     (new_events shop_world (snd (perform_mutation shop_env shop_context 1 shop_world))) = []"
proof -
  let ?o3 = "draft_order ''bob@example.com'' (Some 73) [tracked 5 15 2, gift_card_line]"
  let ?o1 = "draft_order ''ann@example.com'' (Some 71) [tracked 1 11 5, tracked 2 12 4]"
  have a: "orders (db shop_world) 3 = Some ?o3"
    by (simp add: shop_world_def)
  have b: "status ?o3 = DRAFT"
    by (simp add: draft_order_def)
  have c: "validate_draft_order shop_env ?o3 (get_order_country shop_env ?o3) = None"
    by (simp add: shop_env_def draft_order_def)
  have d: "get_order_country shop_env ?o3 = ''US''" "slug (order_channel ?o3) = ''default''"
    "lines ?o3 = [tracked 5 15 2, gift_card_line]"
    "order_channel ?o3 = \<lparr>channel_pk = 1, slug = ''default''\<rparr>"
    "filter needs_allocation [tracked 5 15 2, gift_card_line] = [tracked 5 15 2]"
    "ctx_user shop_context = Some \<lparr>user_pk = 50, email = ''staff@example.com''\<rparr>"
    "ctx_app shop_context = None"
    by (simp_all add: shop_defs)
  have e: "first_shortage shop_env shop_context ''US'' ''default'' [tracked 5 15 2, gift_card_line]
     (stock (db shop_world)) = None"
    by (simp add: shop_defs)
  have g: "\<And>x. get_customer_email shop_env x = user_email x" "\<And>x. get_last_payment shop_env x = Some 900"
    by (simp_all add: shop_env_def)
  have h: "user_email (update_user_fields (users (db shop_world)) ?o3) = ''bob@example.com''"
    by (simp add: shop_defs)
  have a1: "orders (db shop_world) 1 = Some ?o1"
    by (simp add: shop_world_def)
  have b1: "status ?o1 = DRAFT"
    by (simp add: draft_order_def)
  have c1: "validate_draft_order shop_env ?o1 (get_order_country shop_env ?o1) = None"
    by (simp add: shop_env_def draft_order_def)
  have d1: "get_order_country shop_env ?o1 = ''US''" "slug (order_channel ?o1) = ''default''"
    "lines ?o1 = [tracked 1 11 5, tracked 2 12 4]"
    by (simp_all add: shop_defs)
  have e1: "first_shortage shop_env shop_context ''US'' ''default'' [tracked 1 11 5, tracked 2 12 4]
     (stock (db shop_world)) =
     Some (InsufficientStock [\<lparr>shortage_variant = 11, requested = 5, available = 3\<rparr>])"
    by (simp add: shop_defs)
  have k: "\<And>ord'. fst (perform_mutation shop_env shop_context 3 shop_world) = Inr ord' \<Longrightarrow>
             user_email ord' = ''bob@example.com''"
    by (simp add: shop_defs)
  have n: "needs_allocation (tracked 5 15 2)" "\<not> needs_allocation gift_card_line"
    by (simp_all add: shop_defs)
  note t3 = completion_event_iff_no_shortage [OF a b c, of shop_context, unfolded d(1-3) e option.case]
  note t1 = completion_event_iff_no_shortage [OF a1 b1 c1, of shop_context, unfolded d1 e1 option.case]
  from t3 obtain ord' where
    t: "fst (perform_mutation shop_env shop_context 3 shop_world) = Inr ord'"
       "status ord' = UNFULFILLED"
       "filter is_order_created
          (new_events shop_world (snd (perform_mutation shop_env shop_context 3 shop_world))) =
          [OrderCreated
             \<lparr>oi_order = ord', customer_email = get_customer_email shop_env ord',
              oi_channel = order_channel ?o3, oi_payment = get_last_payment shop_env ord',
              lines_data = map line_info (filter needs_allocation [tracked 5 15 2, gift_card_line])\<rparr>
             (ctx_user shop_context) (ctx_app shop_context) True]"
    by blast
  have part3: "\<exists>ord'. fst (perform_mutation shop_env shop_context 3 shop_world) = Inr ord' \<and>
      status ord' = UNFULFILLED \<and>
      filter is_order_created
        (new_events shop_world (snd (perform_mutation shop_env shop_context 3 shop_world))) =
        [OrderCreated
           \<lparr>oi_order = ord', customer_email = ''bob@example.com'',
            oi_channel = \<lparr>channel_pk = 1, slug = ''default''\<rparr>, oi_payment = Some 900,
            lines_data = [line_info (tracked 5 15 2)]\<rparr>
           (Some \<lparr>user_pk = 50, email = ''staff@example.com''\<rparr>) None True]"
    using t(1,2) k [OF t(1)]
    by (intro exI [of _ ord']) (simp add: t(3) g d(4,6,7) n)
  from t1 a b c e e1 part3 show ?thesis
    by blast
qed

subsection \<open>Customer identity\<close>

text \<open>
  C10. \<open>update_user_fields\<close> returns an order for every order and user table, it has no
  failing result: with a user attached, the order's e-mail becomes that user's e-mail; with
  no user and a non-empty e-mail, the user is the one the table holds under that e-mail, or
  \<open>None\<close> when the lookup finds nobody; otherwise the order is unchanged. In a completion of
  a draft order that passes validation these two fields are saved as resolved, and whether
  the completion returns the order or fails is decided by the allocation alone, so a lookup
  that finds nobody fails nothing.
\<close>

theorem customer_identity_resolution_never_fails:
  "update_user_fields us ord0 =
     ord0\<lparr>user := (case user ord0 of
                      Some u \<Rightarrow> Some u
                    | None \<Rightarrow> if user_email ord0 = [] then None else us (user_email ord0)),
           user_email := (case user ord0 of Some u \<Rightarrow> email u | None \<Rightarrow> user_email ord0)\<rparr> \<and>
   (orders (db w) pk = Some ord \<and> status ord = DRAFT \<and>
    validate_draft_order E ord (get_order_country E ord) = None \<longrightarrow>
      (\<exists>ord'.
         orders (db (snd (perform_mutation E C pk w))) pk = Some ord' \<and>
         user ord' = user (update_user_fields (users (db w)) ord) \<and>
         user_email ord' = user_email (update_user_fields (users (db w)) ord) \<and>
         fst (perform_mutation E C pk w) =
           (case first_shortage E C (get_order_country E ord) (slug (order_channel ord))
                   (lines ord) (stock (db w)) of
              None \<Rightarrow> Inr ord'
            | Some exc \<Rightarrow>
                Inl (ValidationError ''lines''
                       (prepare_insufficient_stock_order_validation_errors E exc)))))"
proof (intro conjI impI)
  show "update_user_fields us ord0 =
     ord0\<lparr>user := (case user ord0 of
                      Some u \<Rightarrow> Some u
                    | None \<Rightarrow> if user_email ord0 = [] then None else us (user_email ord0)),
           user_email := (case user ord0 of Some u \<Rightarrow> email u | None \<Rightarrow> user_email ord0)\<rparr>"
    by (simp add: update_user_fields_def split: option.splits)
next
  assume "orders (db w) pk = Some ord \<and> status ord = DRAFT \<and>
    validate_draft_order E ord (get_order_country E ord) = None"
  then have assms: "orders (db w) pk = Some ord" "status ord = DRAFT"
    "validate_draft_order E ord (get_order_country E ord) = None"
    by simp_all
  obtain r w' where pm: "perform_mutation E C pk w = (r, w')"
    by fastforce
  show "\<exists>ord'.
         orders (db (snd (perform_mutation E C pk w))) pk = Some ord' \<and>
         user ord' = user (update_user_fields (users (db w)) ord) \<and>
         user_email ord' = user_email (update_user_fields (users (db w)) ord) \<and>
         fst (perform_mutation E C pk w) =
           (case first_shortage E C (get_order_country E ord) (slug (order_channel ord))
                   (lines ord) (stock (db w)) of
              None \<Rightarrow> Inr ord'
            | Some exc \<Rightarrow>
                Inl (ValidationError ''lines''
                       (prepare_insufficient_stock_order_validation_errors E exc)))"
  proof (cases r)
    case (Inl err)
    from completion_Inl [OF assms pm [unfolded Inl]] obtain ord' exc where
      "user ord' = user (update_user_fields (users (db w)) ord)"
      "user_email ord' = user_email (update_user_fields (users (db w)) ord)"
      "orders (db w') = (orders (db w))(pk \<mapsto> ord')"
      "first_shortage E C (get_order_country E ord) (slug (order_channel ord)) (lines ord)
           (stock (db w)) = Some exc"
      "err = ValidationError ''lines'' (prepare_insufficient_stock_order_validation_errors E exc)"
      by metis
    with pm Inl show ?thesis
      by (intro exI [of _ ord']) simp
  next
    case (Inr ord')
    from completion_Inr [OF assms pm [unfolded Inr]] have
      "user ord' = user (update_user_fields (users (db w)) ord)"
      "user_email ord' = user_email (update_user_fields (users (db w)) ord)"
      "orders (db w') = (orders (db w))(pk \<mapsto> ord')"
      "first_shortage E C (get_order_country E ord) (slug (order_channel ord)) (lines ord)
           (stock (db w)) = None"
      by metis+
    with pm Inr show ?thesis
      by (intro exI [of _ ord']) simp
  qed
qed

text \<open>
  In the shop, order 6 has a user attached and takes over that user's e-mail; the e-mail of
  order 1 belongs to a user, who is attached; nobody has the e-mail of order 3, which is
  completed with no user.
\<close>

theorem customer_identity_resolution_never_fails_witness:
  "user_email
     (update_user_fields (users (db shop_world))
        ((draft_order ''old@example.com'' (Some 76) [tracked 7 15 1])
           \<lparr>shipping_required := True,
            user := Some \<lparr>user_pk = 2, email = ''cy@example.com''\<rparr>\<rparr>)) = ''cy@example.com'' \<and>
   user
     (update_user_fields (users (db shop_world))
        (draft_order ''ann@example.com'' (Some 71) [tracked 1 11 5, tracked 2 12 4])) =
     Some \<lparr>user_pk = 1, email = ''ann@example.com''\<rparr> \<and>
   users (db shop_world) ''bob@example.com'' = None \<and>
   orders (db shop_world) 3 =
     Some (draft_order ''bob@example.com'' (Some 73) [tracked 5 15 2, gift_card_line]) \<and>
   status (draft_order ''bob@example.com'' (Some 73) [tracked 5 15 2, gift_card_line]) = DRAFT \<and>
   validate_draft_order shop_env
     (draft_order ''bob@example.com'' (Some 73) [tracked 5 15 2, gift_card_line])
     (get_order_country shop_env
        (draft_order ''bob@example.com'' (Some 73) [tracked 5 15 2, gift_card_line])) = None \<and>
   (\<exists>ord'. orders (db (snd (perform_mutation shop_env shop_context 3 shop_world))) 3 = Some ord' \<and>
      user ord' = None \<and> user_email ord' = ''bob@example.com'' \<and>
      fst (perform_mutation shop_env shop_context 3 shop_world) = Inr ord')"
proof -
  let ?o3 = "draft_order ''bob@example.com'' (Some 73) [tracked 5 15 2, gift_card_line]"
  let ?o1 = "draft_order ''ann@example.com'' (Some 71) [tracked 1 11 5, tracked 2 12 4]"
  let ?o6 = "(draft_order ''old@example.com'' (Some 76) [tracked 7 15 1])
               \<lparr>shipping_required := True,
                user := Some \<lparr>user_pk = 2, email = ''cy@example.com''\<rparr>\<rparr>"
  have u: "users (db shop_world) ''bob@example.com'' = None"
    "users (db shop_world) ''ann@example.com'' = Some \<lparr>user_pk = 1, email = ''ann@example.com''\<rparr>"
    by (simp_all add: shop_world_def)
  have f: "user ?o6 = Some \<lparr>user_pk = 2, email = ''cy@example.com''\<rparr>"
    "user ?o1 = None" "user_email ?o1 = ''ann@example.com''"
    "user ?o3 = None" "user_email ?o3 = ''bob@example.com''"
    by (simp_all add: draft_order_def)
  have a: "orders (db shop_world) 3 = Some ?o3"
    by (simp add: shop_world_def)
  have b: "status ?o3 = DRAFT"
    by (simp add: draft_order_def)
  have c: "validate_draft_order shop_env ?o3 (get_order_country shop_env ?o3) = None"
    by (simp add: shop_env_def draft_order_def)
  have d: "get_order_country shop_env ?o3 = ''US''" "slug (order_channel ?o3) = ''default''"
    "lines ?o3 = [tracked 5 15 2, gift_card_line]"
    by (simp_all add: shop_defs)
  have e: "first_shortage shop_env shop_context ''US'' ''default'' [tracked 5 15 2, gift_card_line]
     (stock (db shop_world)) = None"
    by (simp add: shop_defs)
  note t = customer_identity_resolution_never_fails
  have p6: "user_email (update_user_fields (users (db shop_world)) ?o6) = ''cy@example.com''"
    using t [of "users (db shop_world)" ?o6, THEN conjunct1] f(1) by simp
  have p1: "user (update_user_fields (users (db shop_world)) ?o1) =
     Some \<lparr>user_pk = 1, email = ''ann@example.com''\<rparr>"
    using t [of "users (db shop_world)" ?o1, THEN conjunct1] f(2,3) u(2) by simp
  have p3: "user (update_user_fields (users (db shop_world)) ?o3) = None"
    "user_email (update_user_fields (users (db shop_world)) ?o3) = ''bob@example.com''"
    using t [of "users (db shop_world)" ?o3, THEN conjunct1] f(4,5) u(1) by simp_all
  from t [of "users (db shop_world)" ?o3 shop_world 3 ?o3 shop_env shop_context,
      THEN conjunct2, rule_format, OF conjI [OF a conjI [OF b c]], unfolded d e option.case p3]
  have "\<exists>ord'. orders (db (snd (perform_mutation shop_env shop_context 3 shop_world))) 3 = Some ord' \<and>
      user ord' = None \<and> user_email ord' = ''bob@example.com'' \<and>
      fst (perform_mutation shop_env shop_context 3 shop_world) = Inr ord'" .
  with p6 p1 u(1) a b c show ?thesis
    by blast
qed

end
